theory Spec2Isabelle
  imports Main "HOL-Library.Multiset"
begin

section \<open>JavaScript values and strings\<close>

text \<open>
  Values that reach the handlers: parsed JSON bodies, bound statement parameters and the
  columns of a stored record. Numbers are modelled as unbounded integers (they agree with
  JavaScript doubles below \<open>2^53\<close>); \<open>JNaN\<close> is the not-a-number value, \<open>JDate\<close> a
  Date object holding its epoch time.
\<close>

datatype jsval =
    JUndefined
  | JNull
  | JBool bool
  | JNum int
  | JNaN
  | JStr string
  | JDate int
  | JArr "jsval list"
  | JObj "(string \<times> jsval) list"

text \<open>\<open>!!v\<close>: everything is truthy except undefined, null, false, 0, NaN and the empty string.\<close>

fun truthy :: "jsval \<Rightarrow> bool" where
  "truthy JUndefined = False"
| "truthy JNull = False"
| "truthy (JBool b) = b"
| "truthy (JNum n) = (n \<noteq> 0)"
| "truthy JNaN = False"
| "truthy (JStr s) = (s \<noteq> [])"
| "truthy (JDate t) = True"
| "truthy (JArr xs) = True"
| "truthy (JObj kvs) = True"

text \<open>A value that is a string or undefined (an unset environment variable, a missing header).\<close>

type_synonym jsstring = "string option"

definition truthy_str :: "jsstring \<Rightarrow> bool" where
  "truthy_str s = (case s of None \<Rightarrow> False | Some t \<Rightarrow> t \<noteq> [])"

text \<open>\<open>s.split(c)\<close> for a one-character separator: never empty, \<open>''''.split(c) = ['''']\<close>.\<close>

fun split_on :: "char \<Rightarrow> string \<Rightarrow> string list" where
  "split_on c [] = [[]]"
| "split_on c (x # xs) =
     (if x = c then [] # split_on c xs
      else (case split_on c xs of [] \<Rightarrow> [[x]] | y # ys \<Rightarrow> (x # y) # ys))"

text \<open>\<open>xs[i]\<close>: undefined out of range.\<close>

definition nth_opt :: "'a list \<Rightarrow> nat \<Rightarrow> 'a option" where
  "nth_opt xs i = (if i < length xs then Some (xs ! i) else None)"

definition startsWith :: "string \<Rightarrow> string \<Rightarrow> bool" where
  "startsWith s p = (take (length p) s = p)"

section \<open>Process configuration and HTTP responses\<close>

record env =
  ADMIN_USER :: jsstring
  ADMIN_PASS :: jsstring
  EMAILJS_SERVICE_ID :: jsstring
  EMAILJS_TEMPLATE_ID :: jsstring
  EMAILJS_USER_ID :: jsstring

text \<open>A stored submission (one row of the \<open>surveys\<close> table).\<close>

record survey =
  survey_id :: int
  brand_name :: jsval
  brand_service :: jsval
  description :: jsval
  responses :: jsval
  is_submitted :: jsval
  submitted_at :: jsval
  created_at :: int

text \<open>
  The JSON bodies the handlers send: \<open>{error}\<close>, \<open>{id}\<close>, \<open>{items, total, page, limit}\<close>,
  a full record, and \<open>{deletedId}\<close>.
\<close>

datatype body =
    ErrorBody string
  | IdBody jsval
  | ListBody "survey list" int jsval jsval
  | RecordBody survey
  | DeletedBody jsval

record response =
  status :: nat
  headers :: "(string \<times> string) list"
  body :: body

definition json_response :: "nat \<Rightarrow> body \<Rightarrow> response" where
  "json_response st b = \<lparr>status = st, headers = [], body = b\<rparr>"

section \<open>Credential checker (middleware/basicAuth.js)\<close>

record creds =
  user :: jsstring
  pass :: jsstring

text \<open>
  \<open>parseBasicAuth\<close>. The library call \<open>Buffer.from(base64, 'base64').toString('utf8')\<close> is the
  parameter \<open>decode\<close>; \<open>None\<close> stands for the call throwing, which the \<open>catch\<close> turns into
  \<open>null\<close>, as it does the \<open>TypeError\<close> of decoding an undefined payload.
\<close>

definition parseBasicAuth :: "(string \<Rightarrow> string option) \<Rightarrow> jsstring \<Rightarrow> creds option" where
  "parseBasicAuth decode header =
     (case header of
        None \<Rightarrow> None
      | Some h \<Rightarrow>
          if h = [] \<or> \<not> startsWith h ''Basic '' then None
          else (case nth_opt (split_on CHR '' '' h) 1 of
                  None \<Rightarrow> None
                | Some base64 \<Rightarrow>
                    (case decode base64 of
                       None \<Rightarrow> None
                     | Some decoded \<Rightarrow>
                         (let parts = split_on CHR '':'' decoded
                          in Some \<lparr>user = nth_opt parts 0, pass = nth_opt parts 1\<rparr>))))"

text \<open>What a middleware does: pass control on (with what it attached to the request) or respond.\<close>

datatype 'a middleware = Next 'a | Respond response

definition challenge :: "string \<Rightarrow> response" where
  \<open>challenge msg =
     \<lparr>status = 401,
      headers = [(''WWW-Authenticate'', ''Basic realm="Admin Area"'')],
      body = ErrorBody msg\<rparr>\<close>

text \<open>\<open>basicAuth\<close>: on acceptance \<open>req.admin = { user: creds.user }\<close> and \<open>next()\<close>.\<close>

definition basicAuth :: "(string \<Rightarrow> string option) \<Rightarrow> env \<Rightarrow> jsstring \<Rightarrow> jsstring middleware" where
  "basicAuth decode e header =
     (case parseBasicAuth decode header of
        None \<Rightarrow> Respond (challenge ''Missing or invalid Authorization header'')
      | Some c \<Rightarrow>
          if user c = ADMIN_USER e \<and> pass c = ADMIN_PASS e then Next (user c)
          else Respond (challenge ''Unauthorized''))"

subsection \<open>A base64 decoder to run the checker on concrete headers\<close>

text \<open>
  The decoding of RFC 4648, lenient as the platform's decoder is: characters outside the
  alphabet are skipped, decoding stops at the first padding character, and it never throws.
  Strings are byte strings here, so on a payload that encodes valid UTF-8 text this is the
  text the platform returns.
\<close>

definition b64_alphabet :: string where
  "b64_alphabet = ''ABCDEFGHIJKLMNOPQRSTUVWXYZabcdefghijklmnopqrstuvwxyz0123456789+/''"

fun index_of :: "char \<Rightarrow> string \<Rightarrow> nat option" where
  "index_of c [] = None"
| "index_of c (x # xs) =
     (if x = c then Some 0 else (case index_of c xs of None \<Rightarrow> None | Some i \<Rightarrow> Some (Suc i)))"

fun b64_sextets :: "string \<Rightarrow> nat list" where
  "b64_sextets [] = []"
| "b64_sextets (c # cs) =
     (if c = CHR ''='' then []
      else (case index_of c b64_alphabet of
              None \<Rightarrow> b64_sextets cs
            | Some v \<Rightarrow> v # b64_sextets cs))"

fun b64_bytes :: "nat list \<Rightarrow> nat list" where
  "b64_bytes (a # b # c # d # rest) =
     (a * 4 + b div 16) # ((b mod 16) * 16 + c div 4) # ((c mod 4) * 64 + d) # b64_bytes rest"
| "b64_bytes [a, b, c] = [a * 4 + b div 16, (b mod 16) * 16 + c div 4]"
| "b64_bytes [a, b] = [a * 4 + b div 16]"
| "b64_bytes _ = []"

definition base64_decode :: "string \<Rightarrow> string option" where
  "base64_decode s = Some (map char_of (b64_bytes (b64_sextets s)))"

text \<open>The sample configuration of the README: admin / adminpassword, no EmailJS identifiers.\<close>

definition readme_env :: env where
  "readme_env =
     \<lparr>ADMIN_USER = Some ''admin'', ADMIN_PASS = Some ''adminpassword'',
      EMAILJS_SERVICE_ID = None, EMAILJS_TEMPLATE_ID = None, EMAILJS_USER_ID = None\<rparr>"

section \<open>Numbers and text helpers of the platform\<close>

text \<open>
  White space as \<open>trim\<close> and \<open>parseInt\<close> skip it; only the ASCII characters (tab, line feed,
  vertical tab, form feed, carriage return, space) are modelled.
\<close>

definition is_space :: "char \<Rightarrow> bool" where
  "is_space c = (c \<in> set [CHR 0x09, CHR 0x0A, CHR 0x0B, CHR 0x0C, CHR 0x0D, CHR '' ''])"

definition trim :: "string \<Rightarrow> string" where
  "trim s = rev (dropWhile is_space (rev (dropWhile is_space s)))"

definition digit_chars :: string where
  "digit_chars = ''0123456789''"

definition is_digit :: "char \<Rightarrow> bool" where
  "is_digit c = (c \<in> set digit_chars)"

fun digits_value :: "nat \<Rightarrow> string \<Rightarrow> nat" where
  "digits_value acc [] = acc"
| "digits_value acc (c # cs) =
     (case index_of c digit_chars of
        None \<Rightarrow> acc
      | Some v \<Rightarrow> digits_value (acc * 10 + v) cs)"

text \<open>A JavaScript number that may be NaN (\<open>None\<close>).\<close>

type_synonym jsnum = "int option"

text \<open>
  \<open>parseInt(s, 10)\<close>: skip leading white space, read an optional sign, then the longest run
  of decimal digits; NaN when there is no digit. Whatever follows the digits is ignored.
\<close>

definition parseInt :: "string \<Rightarrow> jsnum" where
  "parseInt s =
     (let t = dropWhile is_space s;
          neg = (case t of [] \<Rightarrow> False | c # _ \<Rightarrow> c = CHR ''-'');
          u = (case t of [] \<Rightarrow> [] | c # r \<Rightarrow> if c = CHR ''-'' \<or> c = CHR ''+'' then r else t);
          ds = takeWhile is_digit u
      in if ds = [] then None
         else Some ((if neg then - 1 else 1) * int (digits_value 0 ds)))"

text \<open>\<open>Math.max\<close> and \<open>Math.min\<close> return NaN as soon as one argument is NaN.\<close>

definition Math_max :: "jsnum \<Rightarrow> jsnum \<Rightarrow> jsnum" where
  "Math_max a b = (case (a, b) of (Some x, Some y) \<Rightarrow> Some (max x y) | _ \<Rightarrow> None)"

definition Math_min :: "jsnum \<Rightarrow> jsnum \<Rightarrow> jsnum" where
  "Math_min a b = (case (a, b) of (Some x, Some y) \<Rightarrow> Some (min x y) | _ \<Rightarrow> None)"

definition num_sub :: "jsnum \<Rightarrow> jsnum \<Rightarrow> jsnum" where
  "num_sub a b = (case (a, b) of (Some x, Some y) \<Rightarrow> Some (x - y) | _ \<Rightarrow> None)"

definition num_mul :: "jsnum \<Rightarrow> jsnum \<Rightarrow> jsnum" where
  "num_mul a b = (case (a, b) of (Some x, Some y) \<Rightarrow> Some (x * y) | _ \<Rightarrow> None)"

definition num_val :: "jsnum \<Rightarrow> jsval" where
  "num_val a = (case a of None \<Rightarrow> JNaN | Some x \<Rightarrow> JNum x)"

text \<open>\<open>a || b\<close> on a string that may be undefined.\<close>

definition or_else :: "jsstring \<Rightarrow> string \<Rightarrow> string" where
  "or_else a b = (case a of None \<Rightarrow> b | Some s \<Rightarrow> if s = [] then b else s)"

text \<open>Decimal text of a number, for \<open>String(n)\<close> and template literals.\<close>

function show_nat :: "nat \<Rightarrow> string" where
  "show_nat n =
     (if n < 10 then [digit_chars ! n] else show_nat (n div 10) @ [digit_chars ! (n mod 10)])"
  by pat_completeness auto
termination
  by (relation "measure id") auto

declare show_nat.simps [simp del]

definition show_int :: "int \<Rightarrow> string" where
  "show_int i = (if i < 0 then CHR ''-'' # show_nat (nat (- i)) else show_nat (nat i))"

text \<open>
  \<open>String(v)\<close>, called on an insert id only (a number, or undefined); objects print as the
  platform prints a plain object.
\<close>

fun String_of :: "jsval \<Rightarrow> string" where
  "String_of JUndefined = ''undefined''"
| "String_of JNull = ''null''"
| "String_of (JBool b) = (if b then ''true'' else ''false'')"
| "String_of (JNum n) = show_int n"
| "String_of JNaN = ''NaN''"
| "String_of (JStr s) = s"
| "String_of _ = ''[object Object]''"

fun join_with :: "string \<Rightarrow> string list \<Rightarrow> string" where
  "join_with sep [] = []"
| "join_with sep [x] = x"
| "join_with sep (x # y # ys) = x @ sep @ join_with sep (y # ys)"

section \<open>The store: one table behind a connection pool\<close>

text \<open>The value a store call rejects with (the fields the handlers log).\<close>

record store_error =
  message :: string
  code :: string
  errno :: int
  sqlMessage :: string
  sqlState :: string
  sql :: string
  stack :: string

text \<open>
  The store as the handlers see it: the table, the next auto-increment id and the value of
  \<open>NOW()\<close>; which calls it rejects (acquiring a connection, a statement, releasing); and
  its implicit conversions, which are parameters of the model: the text of a bound value
  that is neither a string nor NULL, the time a bound value denotes in a timestamp column,
  when a bound value equals an integer id, and when two characters are equal under the
  collation.
\<close>

record db =
  rows :: "survey list"
  next_id :: int
  now :: int
  conn_error :: "store_error option"
  query_fault :: "string \<Rightarrow> store_error option"
  release_error :: "store_error option"
  other_text :: "jsval \<Rightarrow> string option"
  as_time :: "jsval \<Rightarrow> int"
  id_eq :: "jsval \<Rightarrow> int \<Rightarrow> bool"
  collate :: "char \<Rightarrow> char \<Rightarrow> bool"

datatype qresult =
    RowSet "survey list"
  | CountSet int
  | OkPacket nat int

definition getConnection :: "db \<Rightarrow> store_error + unit" where
  "getConnection d = (case conn_error d of Some err \<Rightarrow> Inl err | None \<Rightarrow> Inr ())"

subsection \<open>The statements the handlers issue\<close>

definition countSql_base :: string where
  "countSql_base = ''SELECT COUNT(*) as cnt FROM surveys''"

definition dataSql_base :: string where
  "dataSql_base =
     [CHR 0x0A] @
     ''    SELECT id, brand_name, brand_service, description, responses, is_submitted, submitted_at'' @
     [CHR 0x0A] @ ''    FROM surveys'' @ [CHR 0x0A] @ ''  ''"

definition likeClause :: string where
  "likeClause = '' WHERE brand_name LIKE ? OR brand_service LIKE ? OR description LIKE ?''"

definition orderClause :: string where
  "orderClause = '' ORDER BY submitted_at DESC, id DESC LIMIT ? OFFSET ?''"

definition insertSql :: string where
  "insertSql =
     [CHR 0x0A] @ ''      INSERT INTO surveys'' @ [CHR 0x0A] @
     ''        (brand_name, brand_service, description, responses, is_submitted, submitted_at, created_at)'' @
     [CHR 0x0A] @ ''      VALUES (?, ?, ?, ?, ?, ?, NOW())'' @ [CHR 0x0A] @ ''    ''"

definition selectSql :: string where
  "selectSql = ''SELECT * FROM surveys WHERE id = ? LIMIT 1''"

definition deleteSql :: string where
  "deleteSql = ''DELETE FROM surveys WHERE id = ?''"

datatype statement =
    CountAll | CountLike | PageAll | PageLike | SelectById | DeleteById | InsertSurvey

definition classify :: "string \<Rightarrow> statement option" where
  "classify q =
     (if q = countSql_base then Some CountAll
      else if q = countSql_base @ likeClause then Some CountLike
      else if q = dataSql_base @ orderClause then Some PageAll
      else if q = dataSql_base @ likeClause @ orderClause then Some PageLike
      else if q = selectSql then Some SelectById
      else if q = deleteSql then Some DeleteById
      else if q = insertSql then Some InsertSurvey
      else None)"

subsection \<open>What the statements mean\<close>

text \<open>
  \<open>LIKE\<close>: \<open>%\<close> matches any run of characters, \<open>_\<close> any one character, a backslash takes
  the next pattern character literally; other characters are compared under the collation.
\<close>

fun like_match :: "(char \<Rightarrow> char \<Rightarrow> bool) \<Rightarrow> string \<Rightarrow> string \<Rightarrow> bool" where
  "like_match eq [] s = (s = [])"
| "like_match eq (p # ps) s =
     (if p = CHR ''%'' then
        (like_match eq ps s \<or> (case s of [] \<Rightarrow> False | _ # t \<Rightarrow> like_match eq (p # ps) t))
      else if p = CHR ''_'' then
        (case s of [] \<Rightarrow> False | _ # t \<Rightarrow> like_match eq ps t)
      else if p = CHR 0x5C then
        (case ps of
           [] \<Rightarrow> (case s of [] \<Rightarrow> False | c # t \<Rightarrow> eq p c \<and> t = [])
         | q # qs \<Rightarrow> (case s of [] \<Rightarrow> False | c # t \<Rightarrow> eq q c \<and> like_match eq qs t))
      else
        (case s of [] \<Rightarrow> False | c # t \<Rightarrow> eq p c \<and> like_match eq ps t))"

definition text_of :: "db \<Rightarrow> jsval \<Rightarrow> string option" where
  "text_of d v = (case v of JStr s \<Rightarrow> Some s | JNull \<Rightarrow> None | _ \<Rightarrow> other_text d v)"

text \<open>\<open>column LIKE ?\<close>: NULL on either side matches nothing.\<close>

definition col_like :: "db \<Rightarrow> jsval \<Rightarrow> jsval \<Rightarrow> bool" where
  "col_like d col p =
     (case (text_of d col, text_of d p) of
        (Some s, Some pat) \<Rightarrow> like_match (collate d) pat s
      | _ \<Rightarrow> False)"

definition where_like :: "db \<Rightarrow> jsval \<Rightarrow> jsval \<Rightarrow> jsval \<Rightarrow> survey \<Rightarrow> bool" where
  "where_like d p1 p2 p3 r =
     (col_like d (brand_name r) p1 \<or> col_like d (brand_service r) p2 \<or>
      col_like d (description r) p3)"

text \<open>\<open>ORDER BY submitted_at DESC, id DESC\<close>.\<close>

definition newer :: "db \<Rightarrow> survey \<Rightarrow> survey \<Rightarrow> bool" where
  "newer d a b =
     (as_time d (submitted_at b) < as_time d (submitted_at a) \<or>
      (as_time d (submitted_at a) = as_time d (submitted_at b) \<and> survey_id b \<le> survey_id a))"

fun insert_desc :: "db \<Rightarrow> survey \<Rightarrow> survey list \<Rightarrow> survey list" where
  "insert_desc d r [] = [r]"
| "insert_desc d r (x # xs) = (if newer d r x then r # x # xs else x # insert_desc d r xs)"

definition order_by :: "db \<Rightarrow> survey list \<Rightarrow> survey list" where
  "order_by d rs = foldr (insert_desc d) rs []"

definition sql_error :: "string \<Rightarrow> string \<Rightarrow> store_error" where
  "sql_error q msg =
     \<lparr>message = msg, code = ''ER_PARSE_ERROR'', errno = 1064, sqlMessage = msg,
      sqlState = ''42000'', sql = q, stack = ''Error: '' @ msg\<rparr>"

text \<open>\<open>LIMIT ? OFFSET ?\<close>: both must be non-negative integers, or the statement is rejected.\<close>

definition page_of :: "string \<Rightarrow> jsval \<Rightarrow> jsval \<Rightarrow> survey list \<Rightarrow> store_error + qresult" where
  "page_of q l off rs =
     (case (l, off) of
        (JNum n, JNum k) \<Rightarrow>
          if 0 \<le> n \<and> 0 \<le> k then Inr (RowSet (take (nat n) (drop (nat k) rs)))
          else Inl (sql_error q ''You have an error in your SQL syntax'')
      | _ \<Rightarrow> Inl (sql_error q ''You have an error in your SQL syntax''))"

definition run_statement :: "statement \<Rightarrow> string \<Rightarrow> jsval list \<Rightarrow> db \<Rightarrow> (store_error + qresult) \<times> db" where
  "run_statement st q ps d =
     (case (st, ps) of
        (CountAll, []) \<Rightarrow> (Inr (CountSet (int (length (rows d)))), d)
      | (CountLike, [p1, p2, p3]) \<Rightarrow>
          (Inr (CountSet (int (length (filter (where_like d p1 p2 p3) (rows d))))), d)
      | (PageAll, [l, off]) \<Rightarrow> (page_of q l off (order_by d (rows d)), d)
      | (PageLike, [p1, p2, p3, l, off]) \<Rightarrow>
          (page_of q l off (order_by d (filter (where_like d p1 p2 p3) (rows d))), d)
      | (SelectById, [i]) \<Rightarrow>
          (Inr (RowSet (take 1 (filter (\<lambda>r. id_eq d i (survey_id r)) (rows d)))), d)
      | (DeleteById, [i]) \<Rightarrow>
          (Inr (OkPacket (length (filter (\<lambda>r. id_eq d i (survey_id r)) (rows d))) 0),
           d\<lparr>rows := filter (\<lambda>r. \<not> id_eq d i (survey_id r)) (rows d)\<rparr>)
      | (InsertSurvey, [bn, bs, ds, rp, sub, sat]) \<Rightarrow>
          (Inr (OkPacket 1 (next_id d)),
           d\<lparr>rows := rows d @
                 [\<lparr>survey_id = next_id d, brand_name = bn, brand_service = bs,
                   description = ds, responses = rp, is_submitted = sub,
                   submitted_at = sat, created_at = now d\<rparr>],
             next_id := next_id d + 1\<rparr>)
      | _ \<Rightarrow> (Inl (sql_error q ''You have an error in your SQL syntax''), d))"

text \<open>\<open>conn.query(sql, params)\<close>.\<close>

definition query :: "string \<Rightarrow> jsval list \<Rightarrow> db \<Rightarrow> (store_error + qresult) \<times> db" where
  "query q ps d =
     (case query_fault d q of
        Some err \<Rightarrow> (Inl err, d)
      | None \<Rightarrow>
          (case classify q of
             None \<Rightarrow> (Inl (sql_error q ''You have an error in your SQL syntax''), d)
           | Some st \<Rightarrow> run_statement st q ps d))"

section \<open>What a handler does\<close>

text \<open>
  The effects of one request, in order: connections acquired and released, statements
  issued, the outbound notification call, and what is written to the server's console.
\<close>

datatype logged = LErr store_error | LVal jsval

datatype event =
    Acquire
  | Release
  | Query string "jsval list"
  | HttpPost string jsval
  | ConsoleLog string "logged list"
  | ConsoleWarn string "logged list"
  | ConsoleError string "logged list"

text \<open>
  A handler either sends a response or lets the rejection of a store call escape (its
  promise rejects and the handler itself sends nothing).
\<close>

datatype outcome = Sent response | Threw store_error

record handled =
  outcome :: outcome
  store :: db
  trace :: "event list"

definition str_val :: "jsstring \<Rightarrow> jsval" where
  "str_val s = (case s of None \<Rightarrow> JUndefined | Some t \<Rightarrow> JStr t)"

text \<open>\<open>conn.release()\<close> inside \<open>try\<close>: a failure is logged as a warning, or swallowed.\<close>

definition release_warn :: "db \<Rightarrow> event list" where
  "release_warn d =
     (case release_error d of
        None \<Rightarrow> [Release]
      | Some err \<Rightarrow> [ConsoleWarn ''Failed to release DB connection'' [LErr err]])"

definition release_quiet :: "db \<Rightarrow> event list" where
  "release_quiet d = (case release_error d of None \<Rightarrow> [Release] | Some err \<Rightarrow> [])"

text \<open>Reading a field of a statement's result; a missing field reads as undefined.\<close>

definition insertId_of :: "qresult \<Rightarrow> jsval" where
  "insertId_of r = (case r of OkPacket a i \<Rightarrow> JNum i | _ \<Rightarrow> JUndefined)"

definition rows_of :: "qresult \<Rightarrow> survey list" where
  "rows_of r = (case r of RowSet rs \<Rightarrow> rs | _ \<Rightarrow> [])"

definition cnt_of :: "qresult \<Rightarrow> int" where
  "cnt_of r = (case r of CountSet n \<Rightarrow> if n \<noteq> 0 then n else 0 | _ \<Rightarrow> 0)"

definition none_affected :: "qresult \<Rightarrow> bool" where
  "none_affected r = (case r of OkPacket a i \<Rightarrow> a = 0 | _ \<Rightarrow> False)"

section \<open>Notification sender (routes/surveys.js)\<close>

text \<open>
  How the external endpoint reacts to the call: a reply with a status and a body, or no
  reply at all (time-out, network failure). The HTTP client rejects every reply whose
  status is not 2xx.
\<close>

datatype http_reply = Reply nat jsval | NoReply string

record axios_error =
  ax_message :: string
  ax_data :: jsval

definition axios_post :: "http_reply \<Rightarrow> axios_error + nat" where
  "axios_post net =
     (case net of
        Reply st data \<Rightarrow>
          if 200 \<le> st \<and> st < 300 then Inr st
          else Inl \<lparr>ax_message = ''Request failed with status code '' @ show_nat st,
                    ax_data = data\<rparr>
      | NoReply msg \<Rightarrow> Inl \<lparr>ax_message = msg, ax_data = JUndefined\<rparr>)"

definition EMAILJS_API :: string where
  "EMAILJS_API = ''https://api.emailjs.com/api/v1.0/email/send''"

text \<open>How the promise of an asynchronous function settles.\<close>

datatype settled = Resolved | Rejected logged

text \<open>
  \<open>sendEmailNotification\<close>; \<open>t\<close> is the clock reading of \<open>new Date()\<close>, carried in the payload
  as a date (its ISO text is not spelled out).
\<close>

definition sendEmailNotification ::
    "env \<Rightarrow> http_reply \<Rightarrow> int \<Rightarrow> jsval \<Rightarrow> jsval \<Rightarrow> settled \<times> event list" where
  "sendEmailNotification e net t insertedId brandName =
     (let serviceId = EMAILJS_SERVICE_ID e;
          templateId = EMAILJS_TEMPLATE_ID e;
          userId = EMAILJS_USER_ID e
      in if \<not> truthy_str serviceId \<or> \<not> truthy_str templateId \<or> \<not> truthy_str userId then
           (Resolved,
            [ConsoleWarn ''EmailJS credentials not configured; skipping notification'' []])
         else
           (let templateParams =
                  JObj [(''survey_id'', JStr (String_of insertedId)),
                        (''brand_name'', if truthy brandName then brandName else JStr ''N/A''),
                        (''message'',
                           JStr (''A new survey was submitted (id: '' @ String_of insertedId @ '').'')),
                        (''submitted_at'', JDate t)];
                body =
                  JObj [(''service_id'', str_val serviceId),
                        (''template_id'', str_val templateId),
                        (''user_id'', str_val userId),
                        (''template_params'', templateParams)]
            in (case axios_post net of
                  Inr st \<Rightarrow>
                    (Resolved,
                     [HttpPost EMAILJS_API body,
                      ConsoleLog (''EmailJS notification sent for survey '' @ String_of insertedId @
                                  '' (status '' @ show_nat st @ '')'') []])
                | Inl err \<Rightarrow>
                    (Resolved,
                     [HttpPost EMAILJS_API body,
                      ConsoleError ''EmailJS notify error''
                        [LVal (if truthy (ax_data err) then ax_data err
                               else if ax_message err \<noteq> [] then JStr (ax_message err)
                               else JObj [(''message'', JStr (ax_message err))])]]))))"

subsection \<open>The stand-alone client (emailjsClient.js)\<close>

text \<open>
  \<open>sendViaEmailJS\<close> is exported by \<open>emailjsClient.js\<close>, which no module of the repository
  imports; the submission handler does not call it. Unlike \<open>sendEmailNotification\<close> it
  raises: on missing configuration, when \<open>fetch\<close> rejects, and on a reply that is not ok.
  A reply carries its status, its status text, its body text (\<open>None\<close> when reading it
  fails) and what parsing the body as JSON gives.
\<close>

record js_error =
  err_message :: string
  err_status :: "nat option"

datatype fetch_reply =
    FetchRejected js_error
  | FetchResponse nat string "string option" "js_error + jsval"

definition sendViaEmailJS ::
    "jsval \<Rightarrow> jsval \<Rightarrow> jsval \<Rightarrow> jsval \<Rightarrow> fetch_reply \<Rightarrow> js_error + jsval" where
  "sendViaEmailJS service_id template_id user_id template_params net =
     (if \<not> truthy service_id \<or> \<not> truthy template_id \<or> \<not> truthy user_id then
        Inl \<lparr>err_message = ''Missing EmailJS configuration (service_id/template_id/user_id).'',
             err_status = None\<rparr>
      else
        (case net of
           FetchRejected err \<Rightarrow> Inl err
         | FetchResponse st statusText txt parsed \<Rightarrow>
             if \<not> (200 \<le> st \<and> st < 300) then
               Inl \<lparr>err_message =
                      ''EmailJS request failed: '' @ show_nat st @ '' '' @ statusText @ '' '' @
                      (case txt of None \<Rightarrow> [] | Some x \<Rightarrow> x),
                    err_status = Some st\<rparr>
             else parsed))"

section \<open>Submission handler (routes/surveys.js)\<close>

text \<open>
  \<open>const { k = null } = req.body || {}\<close>: a key that is missing or undefined reads as null,
  and so does every key of a body that is not an object. An object is its list of
  members, the first member of a name being the one that counts.
\<close>

definition field :: "jsval \<Rightarrow> string \<Rightarrow> jsval" where
  "field b k =
     (case (if truthy b then b else JObj []) of
        JObj kvs \<Rightarrow>
          (case map_of kvs k of
             None \<Rightarrow> JNull
           | Some v \<Rightarrow> if v = JUndefined then JNull else v)
      | _ \<Rightarrow> JNull)"

text \<open>The six semantic fields the validation looks at.\<close>

definition semantic_fields :: "string list" where
  "semantic_fields =
     [''brand_name'', ''brand_service'', ''target_audience'', ''business_why'',
      ''customer_impression'', ''contact'']"

text \<open>
  \<open>router.post('/')\<close>. \<open>stringify\<close> is \<open>JSON.stringify\<close>, \<open>net\<close> the reaction of the
  notification endpoint, \<open>t\<close> the server's clock. The connection is acquired before the
  \<open>try\<close>, so a rejection of \<open>pool.getConnection()\<close> is not caught here. The events of the
  notification are listed where the call is made, after the response.
\<close>

definition post_survey ::
    "(jsval \<Rightarrow> string) \<Rightarrow> env \<Rightarrow> http_reply \<Rightarrow> int \<Rightarrow> db \<Rightarrow> jsval \<Rightarrow> handled" where
  "post_survey stringify e net t d b =
     (let brand_name = field b ''brand_name'';
          brand_service = field b ''brand_service'';
          target_audience = field b ''target_audience'';
          business_why = field b ''business_why'';
          customer_impression = field b ''customer_impression'';
          contact = field b ''contact'';
          submitted_at = field b ''submitted_at''
      in if \<not> truthy brand_service \<and> \<not> truthy target_audience \<and> \<not> truthy business_why \<and>
            \<not> truthy customer_impression \<and> \<not> truthy contact \<and> \<not> truthy brand_name then
           \<lparr>outcome = Sent (json_response 400 (ErrorBody ''At least one field is required'')),
            store = d, trace = []\<rparr>
         else
           (case getConnection d of
              Inl err \<Rightarrow> \<lparr>outcome = Threw err, store = d, trace = []\<rparr>
            | Inr conn \<Rightarrow>
                (let responses =
                       JStr (stringify (JObj [(''target_audience'', target_audience),
                                              (''business_why'', business_why),
                                              (''customer_impression'', customer_impression),
                                              (''contact'', contact)]));
                     params = [brand_name, brand_service, brand_service, responses, JNum 1,
                               if truthy submitted_at then submitted_at else JDate t]
                 in (case query insertSql params d of
                       (Inr result, d') \<Rightarrow>
                         (let insertedId = insertId_of result;
                              sent = sendEmailNotification e net t insertedId brand_name
                          in \<lparr>outcome = Sent (json_response 201 (IdBody insertedId)),
                              store = d',
                              trace = [Acquire, Query insertSql params] @ snd sent @
                                (case fst sent of
                                   Resolved \<Rightarrow> []
                                 | Rejected x \<Rightarrow>
                                     [ConsoleError
                                        ''Unexpected error sending EmailJS notification'' [x]]) @
                                release_warn d'\<rparr>)
                     | (Inl err, d') \<Rightarrow>
                         \<lparr>outcome = Sent (json_response 500 (ErrorBody ''Failed to save survey'')),
                          store = d',
                          trace = [Acquire, Query insertSql params,
                                   ConsoleError ''POST /api/surveys error'' [LErr err]] @
                                  release_warn d'\<rparr>))))"

section \<open>Admin operations (routes/adminSurveys.js)\<close>

text \<open>The query string of a list request: each parameter is a string or absent.\<close>

record list_query =
  q_page :: jsstring
  q_limit :: jsstring
  q_search :: jsstring

definition effective_page :: "list_query \<Rightarrow> jsnum" where
  "effective_page q = Math_max (Some 1) (parseInt (or_else (q_page q) ''1''))"

definition effective_limit :: "list_query \<Rightarrow> jsnum" where
  "effective_limit q = Math_min (Some 100) (parseInt (or_else (q_limit q) ''20''))"

definition effective_offset :: "list_query \<Rightarrow> jsnum" where
  "effective_offset q = num_mul (num_sub (effective_page q) (Some 1)) (effective_limit q)"

definition effective_search :: "list_query \<Rightarrow> string" where
  "effective_search q = trim (or_else (q_search q) [])"

text \<open>The count statement and the data statement of a list request, each with its parameters.\<close>

definition list_queries ::
    "string \<Rightarrow> jsnum \<Rightarrow> jsnum \<Rightarrow> (string \<times> jsval list) \<times> (string \<times> jsval list)" where
  "list_queries search limit offset =
     (let countSql = countSql_base;
          dataSql = dataSql_base;
          like = JStr (''%'' @ search @ ''%'');
          countSql = (if search \<noteq> [] then countSql @ likeClause else countSql);
          dataSql = (if search \<noteq> [] then dataSql @ likeClause else dataSql);
          countParams = (if search \<noteq> [] then [like, like, like] else []);
          dataParams = (if search \<noteq> [] then [like, like, like] else []);
          dataSql = dataSql @ orderClause;
          dataParams = dataParams @ [num_val limit, num_val offset]
      in ((countSql, countParams), (dataSql, dataParams)))"

text \<open>\<open>err.stack.split('\n').slice(0,6).join('\n')\<close>.\<close>

definition stack_head :: "string \<Rightarrow> string" where
  "stack_head s = join_with [CHR 0x0A] (take 6 (split_on (CHR 0x0A) s))"

definition list_detail :: "store_error \<Rightarrow> list_query \<Rightarrow> jsval" where
  "list_detail err q =
     JObj [(''message'', JStr (message err)), (''code'', JStr (code err)),
           (''errno'', JNum (errno err)), (''sqlMessage'', JStr (sqlMessage err)),
           (''sqlState'', JStr (sqlState err)), (''sql'', JStr (sql err)),
           (''query'', JObj [(''page'', str_val (q_page q)), (''limit'', str_val (q_limit q)),
                             (''search'', str_val (q_search q))]),
           (''stack'', JStr (stack_head (stack err)))]"

definition id_detail :: "store_error \<Rightarrow> string \<Rightarrow> jsval" where
  "id_detail err i =
     JObj [(''message'', JStr (message err)), (''code'', JStr (code err)),
           (''sqlMessage'', JStr (sqlMessage err)), (''sql'', JStr (sql err)),
           (''params'', JObj [(''id'', JStr i)]),
           (''stack'', JStr (stack_head (stack err)))]"

definition list_failed :: "store_error \<Rightarrow> list_query \<Rightarrow> event list \<Rightarrow> event list \<Rightarrow> db \<Rightarrow> handled" where
  "list_failed err q evs fin d =
     \<lparr>outcome = Sent (json_response 500 (ErrorBody ''Failed to fetch surveys'')),
      store = d,
      trace = evs @
        [ConsoleError ''GET /api/admin/surveys error (detailed):'' [LVal (list_detail err q)]] @
        fin\<rparr>"

text \<open>\<open>router.get('/')\<close>; \<open>finally\<close> releases the connection only if one was acquired.\<close>

definition list_surveys :: "db \<Rightarrow> list_query \<Rightarrow> handled" where
  "list_surveys d q =
     (let page = effective_page q;
          limit = effective_limit q;
          offset = effective_offset q;
          search = effective_search q;
          qs = list_queries search limit offset;
          countSql = fst (fst qs); countParams = snd (fst qs);
          dataSql = fst (snd qs); dataParams = snd (snd qs)
      in (case getConnection d of
            Inl err \<Rightarrow> list_failed err q [] [] d
          | Inr conn \<Rightarrow>
              (case query countSql countParams d of
                 (Inl err, d1) \<Rightarrow>
                   list_failed err q [Acquire, Query countSql countParams] (release_warn d1) d1
               | (Inr countRows, d1) \<Rightarrow>
                   (let total = cnt_of countRows
                    in (case query dataSql dataParams d1 of
                          (Inl err, d2) \<Rightarrow>
                            list_failed err q
                              [Acquire, Query countSql countParams, Query dataSql dataParams]
                              (release_warn d2) d2
                        | (Inr rs, d2) \<Rightarrow>
                            \<lparr>outcome = Sent (json_response 200
                                         (ListBody (rows_of rs) total (num_val page) (num_val limit))),
                             store = d2,
                             trace = [Acquire, Query countSql countParams,
                                      Query dataSql dataParams] @ release_warn d2\<rparr>)))))"

text \<open>\<open>router.get('/:id')\<close>; the path parameter is a string.\<close>

definition get_survey :: "db \<Rightarrow> string \<Rightarrow> handled" where
  "get_survey d i =
     (case getConnection d of
        Inl err \<Rightarrow>
          \<lparr>outcome = Sent (json_response 500 (ErrorBody ''Failed to fetch survey detail'')),
           store = d,
           trace = [ConsoleError ''GET /api/admin/surveys/:id error (detailed):''
                      [LVal (id_detail err i)]]\<rparr>
      | Inr conn \<Rightarrow>
          (case query selectSql [JStr i] d of
             (Inl err, d') \<Rightarrow>
               \<lparr>outcome = Sent (json_response 500 (ErrorBody ''Failed to fetch survey detail'')),
                store = d',
                trace = [Acquire, Query selectSql [JStr i],
                         ConsoleError ''GET /api/admin/surveys/:id error (detailed):''
                           [LVal (id_detail err i)]] @ release_quiet d'\<rparr>
           | (Inr rs, d') \<Rightarrow>
               \<lparr>outcome =
                  (case rows_of rs of
                     [] \<Rightarrow> Sent (json_response 404 (ErrorBody ''Not found''))
                   | r # _ \<Rightarrow> Sent (json_response 200 (RecordBody r))),
                store = d',
                trace = [Acquire, Query selectSql [JStr i]] @ release_quiet d'\<rparr>))"

text \<open>\<open>router.delete('/:id')\<close>.\<close>

definition delete_survey :: "db \<Rightarrow> string \<Rightarrow> handled" where
  "delete_survey d i =
     (case getConnection d of
        Inl err \<Rightarrow>
          \<lparr>outcome = Sent (json_response 500 (ErrorBody ''Failed to delete survey'')),
           store = d,
           trace = [ConsoleError ''DELETE /api/admin/surveys/:id error (detailed):''
                      [LVal (id_detail err i)]]\<rparr>
      | Inr conn \<Rightarrow>
          (case query deleteSql [JStr i] d of
             (Inl err, d') \<Rightarrow>
               \<lparr>outcome = Sent (json_response 500 (ErrorBody ''Failed to delete survey'')),
                store = d',
                trace = [Acquire, Query deleteSql [JStr i],
                         ConsoleError ''DELETE /api/admin/surveys/:id error (detailed):''
                           [LVal (id_detail err i)]] @ release_quiet d'\<rparr>
           | (Inr result, d') \<Rightarrow>
               \<lparr>outcome =
                  (if none_affected result then Sent (json_response 404 (ErrorBody ''Not found''))
                   else Sent (json_response 200 (DeletedBody (JStr i)))),
                store = d',
                trace = [Acquire, Query deleteSql [JStr i]] @ release_quiet d'\<rparr>))"

section \<open>The final error handler (server.js)\<close>

text \<open>
  The last middleware of the application: it logs the error and, unless a response has
  been sent already, answers 500 with \<open>{error: 'Server error'}\<close> (otherwise it passes the
  error on and sends nothing). Whether the rejection of an asynchronous handler's promise
  reaches it is the framework's business, not this repository's.
\<close>

definition final_error_handler :: "bool \<Rightarrow> store_error \<Rightarrow> response option \<times> event list" where
  "final_error_handler headersSent err =
     (if headersSent then None else Some (json_response 500 (ErrorBody ''Server error'')),
      [ConsoleError ''Unhandled error:'' [LErr err]])"


section \<open>A store and requests to run the handlers on\<close>

text \<open>
  A healthy store with three submissions. Its conversions are the simplest ones: only
  strings have text, a date or a number is its own time, an id parameter matches the
  integer it starts with, and the collation compares characters exactly.
\<close>

definition plain_time :: "jsval \<Rightarrow> int" where
  "plain_time v = (case v of JDate t \<Rightarrow> t | JNum n \<Rightarrow> n | _ \<Rightarrow> 0)"

definition plain_id_eq :: "jsval \<Rightarrow> int \<Rightarrow> bool" where
  "plain_id_eq v n = (case v of JStr s \<Rightarrow> parseInt s = Some n | JNum m \<Rightarrow> m = n | _ \<Rightarrow> False)"

definition example_row :: "int \<Rightarrow> string \<Rightarrow> string \<Rightarrow> int \<Rightarrow> survey" where
  "example_row i name service t =
     \<lparr>survey_id = i, brand_name = JStr name, brand_service = JStr service,
      description = JStr service, responses = JStr ''{}'', is_submitted = JNum 1,
      submitted_at = JDate t, created_at = t\<rparr>"

definition example_store :: db where
  "example_store =
     \<lparr>rows = [example_row 1 ''Acme'' ''anvils'' 100,
              example_row 2 ''abc'' ''letters'' 300,
              example_row 3 ''Bolt'' ''a_c parts'' 200],
      next_id = 4, now = 400,
      conn_error = None, query_fault = (\<lambda>q. None), release_error = None,
      other_text = (\<lambda>v. None), as_time = plain_time, id_eq = plain_id_eq,
      collate = (=)\<rparr>"

definition refused :: store_error where
  "refused =
     \<lparr>message = ''connect ECONNREFUSED 127.0.0.1:3306'', code = ''ECONNREFUSED'', errno = - 111,
      sqlMessage = [], sqlState = [], sql = [],
      stack = ''Error: connect ECONNREFUSED 127.0.0.1:3306''\<rparr>"


section \<open>Notions the properties below are stated with\<close>

text \<open>
  \<open>s\<close> occurs in \<open>t\<close> as a substring, characters compared under a collation; with exact
  comparison this is the usual substring relation (\<open>contains_exact\<close> below).
\<close>

fun prefix_under :: "(char \<Rightarrow> char \<Rightarrow> bool) \<Rightarrow> string \<Rightarrow> string \<Rightarrow> bool" where
  "prefix_under eq [] t = True"
| "prefix_under eq (x # xs) [] = False"
| "prefix_under eq (x # xs) (y # ys) = (eq x y \<and> prefix_under eq xs ys)"

fun contains_under :: "(char \<Rightarrow> char \<Rightarrow> bool) \<Rightarrow> string \<Rightarrow> string \<Rightarrow> bool" where
  "contains_under eq s [] = prefix_under eq s []"
| "contains_under eq s (y # ys) = (prefix_under eq s (y # ys) \<or> contains_under eq s ys)"

text \<open>A column of a record contains \<open>s\<close>: it has a text, and \<open>s\<close> occurs in it.\<close>

definition field_contains :: "db \<Rightarrow> string \<Rightarrow> jsval \<Rightarrow> bool" where
  "field_contains d s v =
     (case text_of d v of None \<Rightarrow> False | Some t \<Rightarrow> contains_under (collate d) s t)"

definition mentions :: "db \<Rightarrow> string \<Rightarrow> survey \<Rightarrow> bool" where
  "mentions d s r =
     (field_contains d s (brand_name r) \<or> field_contains d s (brand_service r) \<or>
      field_contains d s (description r))"

text \<open>A search term without the characters \<open>LIKE\<close> gives a meaning to.\<close>

definition like_free :: "string \<Rightarrow> bool" where
  "like_free s = list_all (\<lambda>c. c \<noteq> CHR ''%'' \<and> c \<noteq> CHR ''_'' \<and> c \<noteq> CHR 0x5C) s"

text \<open>The list request of the examples: no parameters.\<close>

definition no_params :: list_query where
  "no_params = \<lparr>q_page = None, q_limit = None, q_search = None\<rparr>"


section \<open>Facts about the helpers\<close>

lemma split_on_not_Nil: "split_on c s \<noteq> []"
  by (induction s) (auto split: list.splits)

lemma split_on_no_sep: "p \<in> set (split_on c s) \<Longrightarrow> c \<notin> set p"
  by (induction s arbitrary: p) (auto split: list.splits if_splits)

lemma split_on_append_sep: "c \<notin> set u \<Longrightarrow> split_on c (u @ c # rest) = u # split_on c rest"
  by (induction u) auto

lemma nth_opt_in_set: "nth_opt xs i = Some x \<Longrightarrow> x \<in> set xs"
  by (auto simp: nth_opt_def split: if_splits)

lemma split_on_takeWhile:
  "split_on c s =
     takeWhile (\<lambda>x. x \<noteq> c) s #
     (case dropWhile (\<lambda>x. x \<noteq> c) s of [] \<Rightarrow> [] | _ # r \<Rightarrow> split_on c r)"
  by (induction s) (auto split: list.splits)

lemma startsWith_iff: "startsWith s p \<longleftrightarrow> (\<exists>rest. s = p @ rest)"
  unfolding startsWith_def by (metis append_take_drop_id append_eq_conv_conj)

lemma classify_simps:
  "classify countSql_base = Some CountAll"
  "classify (countSql_base @ likeClause) = Some CountLike"
  "classify (dataSql_base @ orderClause) = Some PageAll"
  "classify (dataSql_base @ likeClause @ orderClause) = Some PageLike"
  "classify selectSql = Some SelectById"
  "classify deleteSql = Some DeleteById"
  "classify insertSql = Some InsertSurvey"
  by (simp_all add: classify_def countSql_base_def likeClause_def dataSql_base_def
        orderClause_def selectSql_def deleteSql_def insertSql_def)

lemma query_insert:
  "query_fault d insertSql = None \<Longrightarrow>
   query insertSql [bn, bs, ds, rp, sub, sat] d =
     (Inr (OkPacket 1 (next_id d)),
      d\<lparr>rows := rows d @
            [\<lparr>survey_id = next_id d, brand_name = bn, brand_service = bs, description = ds,
              responses = rp, is_submitted = sub, submitted_at = sat, created_at = now d\<rparr>],
        next_id := next_id d + 1\<rparr>)"
  by (simp add: query_def classify_simps run_statement_def)

lemma query_rejected: "query_fault d q = Some err \<Longrightarrow> query q ps d = (Inl err, d)"
  by (simp add: query_def)

lemma query_select:
  "query_fault d selectSql = None \<Longrightarrow>
   query selectSql [i] d =
     (Inr (RowSet (take 1 (filter (\<lambda>r. id_eq d i (survey_id r)) (rows d)))), d)"
  by (simp add: query_def classify_simps run_statement_def)

lemma query_delete:
  "query_fault d deleteSql = None \<Longrightarrow>
   query deleteSql [i] d =
     (Inr (OkPacket (length (filter (\<lambda>r. id_eq d i (survey_id r)) (rows d))) 0),
      d\<lparr>rows := filter (\<lambda>r. \<not> id_eq d i (survey_id r)) (rows d)\<rparr>)"
  by (simp add: query_def classify_simps run_statement_def)

section \<open>Credential checker\<close>

lemma basic_payload:
  "nth_opt (split_on CHR '' '' (''Basic '' @ rest)) 1 =
     Some (takeWhile (\<lambda>x. x \<noteq> CHR '' '') rest)"
proof -
  have "split_on CHR '' '' (''Basic '' @ rest) = ''Basic'' # split_on CHR '' '' rest"
    using split_on_append_sep [of "CHR '' ''" "''Basic''" rest] by simp
  then show ?thesis
    using split_on_takeWhile [of "CHR '' ''" rest] by (simp add: nth_opt_def)
qed

lemma parse_Some_iff:
  "parseBasicAuth decode header = Some c \<longleftrightarrow>
     (\<exists>rest decoded. header = Some (''Basic '' @ rest) \<and>
        decode (takeWhile (\<lambda>x. x \<noteq> CHR '' '') rest) = Some decoded \<and>
        c = \<lparr>user = nth_opt (split_on CHR '':'' decoded) 0,
             pass = nth_opt (split_on CHR '':'' decoded) 1\<rparr>)"
proof (cases header)
  case None
  then show ?thesis by (simp add: parseBasicAuth_def)
next
  case (Some h)
  show ?thesis
  proof (cases "startsWith h ''Basic ''")
    case False
    then have "\<And>rest. h \<noteq> ''Basic '' @ rest" by (auto simp: startsWith_iff)
    with False Some show ?thesis by (auto simp: parseBasicAuth_def)
  next
    case True
    then obtain rest where h: "h = ''Basic '' @ rest" unfolding startsWith_iff by blast
    have ne: "h \<noteq> []" using h by auto
    show ?thesis
      using Some True ne basic_payload [of rest]
      by (auto simp: parseBasicAuth_def h Let_def split: option.splits)
  qed
qed

lemma challenge_shape:
  \<open>status (challenge msg) = 401 \<and> body (challenge msg) = ErrorBody msg \<and>
   map_of (headers (challenge msg)) ''WWW-Authenticate'' = Some ''Basic realm="Admin Area"''\<close>
  by (simp add: challenge_def)

text \<open>
  C2. The checker passes control on exactly when the header parses to credentials whose
  username and password both equal the configured \<open>ADMIN_USER\<close> and \<open>ADMIN_PASS\<close> (strict
  equality of values that are strings or undefined); what it attaches is the parsed
  username. Every response it sends instead, for absent as for mismatched credentials, has
  status 401, a JSON error body and the header \<open>WWW-Authenticate: Basic realm="Admin Area"\<close>.
  When both secrets are configured, acceptance is: the header parses to exactly that
  username and that password.
\<close>

theorem basicAuth_accepts_iff_credentials_equal:
  \<open>((\<exists>u. basicAuth decode e header = Next u) \<longleftrightarrow>
      (\<exists>c. parseBasicAuth decode header = Some c \<and>
           user c = ADMIN_USER e \<and> pass c = ADMIN_PASS e)) \<and>
   (\<forall>u. basicAuth decode e header = Next u \<longrightarrow>
      (\<exists>c. parseBasicAuth decode header = Some c \<and> u = user c)) \<and>
   (\<forall>r. basicAuth decode e header = Respond r \<longrightarrow>
      status r = 401 \<and> (\<exists>msg. body r = ErrorBody msg) \<and>
      map_of (headers r) ''WWW-Authenticate'' = Some ''Basic realm="Admin Area"'') \<and>
   (\<forall>name secret. ADMIN_USER e = Some name \<and> ADMIN_PASS e = Some secret \<longrightarrow>
      ((\<exists>u. basicAuth decode e header = Next u) \<longleftrightarrow>
         parseBasicAuth decode header = Some \<lparr>user = Some name, pass = Some secret\<rparr>))\<close>
proof (cases "parseBasicAuth decode header")
  case None
  then have "basicAuth decode e header =
      Respond (challenge ''Missing or invalid Authorization header'')"
    by (simp add: basicAuth_def)
  with None show ?thesis using challenge_shape by auto
next
  case (Some c)
  have c: "\<And>name secret. c = \<lparr>user = Some name, pass = Some secret\<rparr> \<longleftrightarrow>
             user c = Some name \<and> pass c = Some secret"
    by (cases c) auto
  show ?thesis
  proof (cases "user c = ADMIN_USER e \<and> pass c = ADMIN_PASS e")
    case True
    with Some have "basicAuth decode e header = Next (user c)"
      by (simp add: basicAuth_def)
    with Some True show ?thesis by (auto simp: c)
  next
    case False
    with Some have "basicAuth decode e header = Respond (challenge ''Unauthorized'')"
      by (auto simp: basicAuth_def)
    with Some False show ?thesis using challenge_shape by (auto simp: c)
  qed
qed

theorem basicAuth_accepts_iff_credentials_equal_witness:
  \<open>(\<exists>u. basicAuth base64_decode readme_env (Some ''Basic YWRtaW46YWRtaW5wYXNzd29yZA=='') = Next u) \<and>
   (\<exists>c. parseBasicAuth base64_decode (Some ''Basic YWRtaW46YWRtaW5wYXNzd29yZA=='') = Some c \<and>
        user c = Some ''admin'' \<and> pass c = Some ''adminpassword'') \<and>
   (\<exists>r. basicAuth base64_decode readme_env None = Respond r \<and> status r = 401 \<and>
        map_of (headers r) ''WWW-Authenticate'' = Some ''Basic realm="Admin Area"'')\<close>
proof -
  have acc: "basicAuth base64_decode readme_env (Some ''Basic YWRtaW46YWRtaW5wYXNzd29yZA=='')
               = Next (Some ''admin'')"
    by code_simp
  have rej: "basicAuth base64_decode readme_env None
               = Respond (challenge ''Missing or invalid Authorization header'')"
    by (simp add: basicAuth_def parseBasicAuth_def)
  have env: "ADMIN_USER readme_env = Some ''admin''"
            "ADMIN_PASS readme_env = Some ''adminpassword''"
    by (simp_all add: readme_env_def)
  from acc env
    basicAuth_accepts_iff_credentials_equal
      [of base64_decode readme_env "Some ''Basic YWRtaW46YWRtaW5wYXNzd29yZA==''"]
  have "\<exists>c. parseBasicAuth base64_decode (Some ''Basic YWRtaW46YWRtaW5wYXNzd29yZA=='') = Some c \<and>
        user c = Some ''admin'' \<and> pass c = Some ''adminpassword''"
    by auto
  moreover from rej basicAuth_accepts_iff_credentials_equal [of base64_decode readme_env None]
  have \<open>\<exists>r. basicAuth base64_decode readme_env None = Respond r \<and> status r = 401 \<and>
        map_of (headers r) ''WWW-Authenticate'' = Some ''Basic realm="Admin Area"''\<close>
    by auto
  ultimately show ?thesis using acc by auto
qed

text \<open>
  C10. When the decoded payload has more than one colon, the parser returns the text before
  the first colon as the username and only the text between the first and the second colon
  as the password. So the parsed password never contains a colon, and when the configured
  \<open>ADMIN_PASS\<close> contains one, no header at all is accepted.
\<close>

theorem parseBasicAuth_keeps_first_two_segments:
  "(decode (takeWhile (\<lambda>x. x \<noteq> CHR '' '') rest) = Some (u @ CHR '':'' # p @ CHR '':'' # others) \<and>
      CHR '':'' \<notin> set u \<and> CHR '':'' \<notin> set p \<longrightarrow>
        parseBasicAuth decode (Some (''Basic '' @ rest)) = Some \<lparr>user = Some u, pass = Some p\<rparr>) \<and>
   (ADMIN_PASS e = Some pw \<and> CHR '':'' \<in> set pw \<longrightarrow>
        (\<forall>header a. basicAuth decode e header \<noteq> Next a))"
proof (intro conjI impI allI)
  assume h: "decode (takeWhile (\<lambda>x. x \<noteq> CHR '' '') rest) = Some (u @ CHR '':'' # p @ CHR '':'' # others) \<and>
      CHR '':'' \<notin> set u \<and> CHR '':'' \<notin> set p"
  then have "split_on CHR '':'' (u @ CHR '':'' # p @ CHR '':'' # others) =
               u # p # split_on CHR '':'' others"
    by (simp add: split_on_append_sep)
  then have "nth_opt (split_on CHR '':'' (u @ CHR '':'' # p @ CHR '':'' # others)) 0 = Some u"
            "nth_opt (split_on CHR '':'' (u @ CHR '':'' # p @ CHR '':'' # others)) 1 = Some p"
    by (simp_all add: nth_opt_def)
  with h show "parseBasicAuth decode (Some (''Basic '' @ rest)) =
                 Some \<lparr>user = Some u, pass = Some p\<rparr>"
    unfolding parse_Some_iff by auto
next
  fix header a
  assume pw: "ADMIN_PASS e = Some pw \<and> CHR '':'' \<in> set pw"
  show "basicAuth decode e header \<noteq> Next a"
  proof
    assume "basicAuth decode e header = Next a"
    then obtain c where c: "parseBasicAuth decode header = Some c" "pass c = ADMIN_PASS e"
      by (auto simp: basicAuth_def split: option.splits if_splits)
    from c(1) have "\<exists>decoded. pass c = nth_opt (split_on CHR '':'' decoded) 1"
      unfolding parse_Some_iff by fastforce
    then obtain decoded where "pass c = nth_opt (split_on CHR '':'' decoded) 1" ..
    with c pw have "pw \<in> set (split_on CHR '':'' decoded)"
      by (simp add: nth_opt_in_set)
    then have "CHR '':'' \<notin> set pw" by (rule split_on_no_sep)
    with pw show False by simp
  qed
qed

theorem parseBasicAuth_keeps_first_two_segments_witness:
  "parseBasicAuth base64_decode (Some ''Basic YTpiOmM='') =
     Some \<lparr>user = Some ''a'', pass = Some ''b''\<rparr> \<and>
   (\<forall>header a. basicAuth base64_decode (readme_env\<lparr>ADMIN_PASS := Some ''b:c''\<rparr>) header \<noteq> Next a)"
proof -
  have d: "base64_decode (takeWhile (\<lambda>x. x \<noteq> CHR '' '') ''YTpiOmM='') =
             Some (''a'' @ CHR '':'' # ''b'' @ CHR '':'' # ''c'')"
    by code_simp
  have "CHR '':'' \<notin> set ''a''" "CHR '':'' \<notin> set ''b''" by simp_all
  with d parseBasicAuth_keeps_first_two_segments
      [of base64_decode "''YTpiOmM=''" "''a''" "''b''" "''c''"
          "readme_env\<lparr>ADMIN_PASS := Some ''b:c''\<rparr>" "''b:c''"]
  show ?thesis by simp
qed

text \<open>
  C6. The parser returns null for a missing or empty header, but not for a payload without
  a colon or for a malformed payload: \<open>Basic dXNlcg==\<close> (the encoding of \<open>user\<close>) parses to
  credentials with an undefined password, and \<open>Basic !!!!\<close> to an empty username, because
  the decoder never throws and the split always yields a first element.
\<close>

theorem parseBasicAuth_without_colon_is_not_null:
  "parseBasicAuth base64_decode (Some ''Basic dXNlcg=='') =
     Some \<lparr>user = Some ''user'', pass = None\<rparr> \<and>
   parseBasicAuth base64_decode (Some ''Basic !!!!'') = Some \<lparr>user = Some [], pass = None\<rparr> \<and>
   parseBasicAuth base64_decode (Some []) = None \<and>
   parseBasicAuth base64_decode None = None"
  by code_simp

text \<open>
  With \<open>ADMIN_PASS\<close> unset, the undefined password of such a header equals the undefined
  configured one, and the header is accepted.
\<close>

lemma basicAuth_unset_password_accepts_without_colon:
  "basicAuth base64_decode (readme_env\<lparr>ADMIN_USER := Some ''user'', ADMIN_PASS := None\<rparr>)
     (Some ''Basic dXNlcg=='') = Next (Some ''user'')"
  by code_simp


section \<open>Submission handler\<close>

lemma falsy_values:
  "\<not> truthy v \<longleftrightarrow> v \<in> {JUndefined, JNull, JBool False, JNum 0, JNaN, JStr []}"
  by (cases v) auto

lemma field_not_undefined: "field b k \<noteq> JUndefined"
  by (auto simp: field_def split: jsval.splits option.splits)

lemma post_survey_invalid:
  "\<forall>k \<in> set semantic_fields. \<not> truthy (field b k) \<Longrightarrow>
   post_survey stringify e net t d b =
     \<lparr>outcome = Sent (json_response 400 (ErrorBody ''At least one field is required'')),
      store = d, trace = []\<rparr>"
  by (simp add: post_survey_def semantic_fields_def)

lemma post_survey_no_connection:
  "\<exists>k \<in> set semantic_fields. truthy (field b k) \<Longrightarrow> conn_error d = Some err \<Longrightarrow>
   post_survey stringify e net t d b = \<lparr>outcome = Threw err, store = d, trace = []\<rparr>"
  by (auto simp: post_survey_def semantic_fields_def getConnection_def)

lemma post_survey_insert_rejected:
  "\<exists>k \<in> set semantic_fields. truthy (field b k) \<Longrightarrow> conn_error d = None \<Longrightarrow>
   query_fault d insertSql = Some err \<Longrightarrow>
   outcome (post_survey stringify e net t d b) =
     Sent (json_response 500 (ErrorBody ''Failed to save survey'')) \<and>
   store (post_survey stringify e net t d b) = d \<and>
   ConsoleError ''POST /api/surveys error'' [LErr err]
     \<in> set (trace (post_survey stringify e net t d b))"
  by (auto simp: post_survey_def semantic_fields_def getConnection_def query_rejected Let_def)

lemma post_survey_inserted:
  "\<exists>k \<in> set semantic_fields. truthy (field b k) \<Longrightarrow> conn_error d = None \<Longrightarrow>
   query_fault d insertSql = None \<Longrightarrow>
   outcome (post_survey stringify e net t d b) =
     Sent (json_response 201 (IdBody (JNum (next_id d)))) \<and>
   store (post_survey stringify e net t d b) =
     d\<lparr>rows := rows d @
          [\<lparr>survey_id = next_id d,
            brand_name = field b ''brand_name'',
            brand_service = field b ''brand_service'',
            description = field b ''brand_service'',
            responses = JStr (stringify (JObj
               [(''target_audience'', field b ''target_audience''),
                (''business_why'', field b ''business_why''),
                (''customer_impression'', field b ''customer_impression''),
                (''contact'', field b ''contact'')])),
            is_submitted = JNum 1,
            submitted_at = (if truthy (field b ''submitted_at'') then field b ''submitted_at''
                            else JDate t),
            created_at = now d\<rparr>],
       next_id := next_id d + 1\<rparr>"
  by (auto simp: post_survey_def semantic_fields_def getConnection_def query_insert
        insertId_of_def Let_def)

lemma post_survey_cases:
  "(\<forall>k \<in> set semantic_fields. \<not> truthy (field b k)) \<or>
   (\<exists>k \<in> set semantic_fields. truthy (field b k)) \<and>
     ((\<exists>err. conn_error d = Some err) \<or>
      conn_error d = None \<and> (\<exists>err. query_fault d insertSql = Some err) \<or>
      conn_error d = None \<and> query_fault d insertSql = None)"
  by (cases "conn_error d"; cases "query_fault d insertSql") auto

text \<open>
  C1. When all six semantic fields are empty or absent (each reads as null, false, 0, NaN
  or the empty string: what the validation's \<open>!field\<close> tests), the handler responds 400
  with the JSON error body, leaves the store as it was and acquires no connection (no
  effect at all is recorded). When at least one of them is not empty, whatever the handler
  sends is not a 400.
\<close>

theorem post_survey_400_iff_all_fields_empty:
  "(if \<forall>k \<in> set semantic_fields. \<not> truthy (field b k)
    then post_survey stringify e net t d b =
           \<lparr>outcome = Sent (json_response 400 (ErrorBody ''At least one field is required'')),
            store = d, trace = []\<rparr>
    else \<forall>r. outcome (post_survey stringify e net t d b) = Sent r \<longrightarrow> status r \<noteq> 400) \<and>
   (\<forall>k. \<not> truthy (field b k) \<longleftrightarrow>
        field b k \<in> {JNull, JBool False, JNum 0, JNaN, JStr []})"
proof (intro conjI allI)
  show "if \<forall>k \<in> set semantic_fields. \<not> truthy (field b k)
    then post_survey stringify e net t d b =
           \<lparr>outcome = Sent (json_response 400 (ErrorBody ''At least one field is required'')),
            store = d, trace = []\<rparr>
    else \<forall>r. outcome (post_survey stringify e net t d b) = Sent r \<longrightarrow> status r \<noteq> 400"
  proof (cases "\<forall>k \<in> set semantic_fields. \<not> truthy (field b k)")
    case True
    show ?thesis by (subst if_P [OF True]) (rule post_survey_invalid [OF True])
  next
    case False
    then have some: "\<exists>k \<in> set semantic_fields. truthy (field b k)" by blast
    have not400: "\<forall>r. outcome (post_survey stringify e net t d b) = Sent r \<longrightarrow> status r \<noteq> 400"
      using post_survey_cases [of b d]
            post_survey_no_connection [OF some, of d _ stringify e net t]
            post_survey_insert_rejected [OF some, of d _ stringify e net t]
            post_survey_inserted [OF some, of d stringify e net t]
      using False by (auto simp: json_response_def)
    show ?thesis by (subst if_not_P [OF False]) (rule not400)
  qed
next
  fix k
  show "\<not> truthy (field b k) \<longleftrightarrow> field b k \<in> {JNull, JBool False, JNum 0, JNaN, JStr []}"
    using falsy_values [of "field b k"] field_not_undefined [of b k] by auto
qed

theorem post_survey_400_iff_all_fields_empty_witness:
  "post_survey (\<lambda>v. ''{}'') readme_env (NoReply []) 500 example_store
       (JObj [(''brand_name'', JStr []), (''contact'', JNull)]) =
     \<lparr>outcome = Sent (json_response 400 (ErrorBody ''At least one field is required'')),
      store = example_store, trace = []\<rparr> \<and>
   outcome (post_survey (\<lambda>v. ''{}'') readme_env (NoReply []) 500 example_store
       (JObj [(''brand_name'', JStr ''Acme''), (''target_audience'', JStr ''teens'')])) =
     Sent (json_response 201 (IdBody (JNum 4))) \<and>
   status (json_response 201 (IdBody (JNum 4))) \<noteq> 400"
proof -
  have empty: "\<forall>k \<in> set semantic_fields.
      \<not> truthy (field (JObj [(''brand_name'', JStr []), (''contact'', JNull)]) k)"
    by (simp add: semantic_fields_def field_def)
  have filled: "\<not> (\<forall>k \<in> set semantic_fields.
      \<not> truthy (field (JObj [(''brand_name'', JStr ''Acme''), (''target_audience'', JStr ''teens'')]) k))"
    by (simp add: semantic_fields_def field_def)
  have sent: "outcome (post_survey (\<lambda>v. ''{}'') readme_env (NoReply []) 500 example_store
       (JObj [(''brand_name'', JStr ''Acme''), (''target_audience'', JStr ''teens'')])) =
     Sent (json_response 201 (IdBody (JNum 4)))"
    using post_survey_inserted [of "JObj [(''brand_name'', JStr ''Acme''), (''target_audience'', JStr ''teens'')]"
        example_store "\<lambda>v. ''{}''" readme_env "NoReply []" 500] filled
    by (simp add: example_store_def)
  from empty filled sent
    post_survey_400_iff_all_fields_empty
      [of "JObj [(''brand_name'', JStr []), (''contact'', JNull)]"
          "\<lambda>v. ''{}''" readme_env "NoReply []" 500 example_store]
    post_survey_400_iff_all_fields_empty
      [of "JObj [(''brand_name'', JStr ''Acme''), (''target_audience'', JStr ''teens'')]"
          "\<lambda>v. ''{}''" readme_env "NoReply []" 500 example_store]
  show ?thesis by simp
qed

text \<open>
  C9. A valid submission that the store accepts adds exactly one record; its
  \<open>description\<close> and its \<open>brand_service\<close> are both the submitted \<open>brand_service\<close> value and its
  \<open>is_submitted\<close> flag is the number 1, whatever the other fields are; the response is 201
  with the record's id. And the handler adds a record on no other path: whenever the table
  changes, it is by one such record.
\<close>

theorem post_survey_description_is_brand_service:
  "((\<exists>k \<in> set semantic_fields. truthy (field b k)) \<and> conn_error d = None \<and>
      query_fault d insertSql = None \<longrightarrow>
      (\<exists>row. rows (store (post_survey stringify e net t d b)) = rows d @ [row] \<and>
             outcome (post_survey stringify e net t d b) =
               Sent (json_response 201 (IdBody (JNum (survey_id row)))) \<and>
             description row = field b ''brand_service'' \<and>
             brand_service row = field b ''brand_service'' \<and>
             is_submitted row = JNum 1)) \<and>
   (rows (store (post_survey stringify e net t d b)) \<noteq> rows d \<longrightarrow>
      (\<exists>row. rows (store (post_survey stringify e net t d b)) = rows d @ [row] \<and>
             description row = field b ''brand_service'' \<and>
             brand_service row = field b ''brand_service'' \<and>
             is_submitted row = JNum 1))"
proof (intro conjI impI)
  assume ok: "(\<exists>k \<in> set semantic_fields. truthy (field b k)) \<and> conn_error d = None \<and>
      query_fault d insertSql = None"
  then show "\<exists>row. rows (store (post_survey stringify e net t d b)) = rows d @ [row] \<and>
             outcome (post_survey stringify e net t d b) =
               Sent (json_response 201 (IdBody (JNum (survey_id row)))) \<and>
             description row = field b ''brand_service'' \<and>
             brand_service row = field b ''brand_service'' \<and>
             is_submitted row = JNum 1"
    using post_survey_inserted [of b d stringify e net t] by simp
next
  assume changed: "rows (store (post_survey stringify e net t d b)) \<noteq> rows d"
  have "\<not> (\<forall>k \<in> set semantic_fields. \<not> truthy (field b k))"
  proof
    assume "\<forall>k \<in> set semantic_fields. \<not> truthy (field b k)"
    then have "store (post_survey stringify e net t d b) = d"
      by (simp add: post_survey_invalid)
    with changed show False by simp
  qed
  then have some: "\<exists>k \<in> set semantic_fields. truthy (field b k)" by blast
  have same1: "\<And>err. conn_error d = Some err \<Longrightarrow>
      store (post_survey stringify e net t d b) = d"
    using post_survey_no_connection [OF some] by simp
  have same2: "\<And>err. conn_error d = None \<Longrightarrow> query_fault d insertSql = Some err \<Longrightarrow>
      store (post_survey stringify e net t d b) = d"
    using post_survey_insert_rejected [OF some] by simp
  have "conn_error d = None \<and> query_fault d insertSql = None"
    using changed same1 same2
    by (cases "conn_error d"; cases "query_fault d insertSql") auto
  then show "\<exists>row. rows (store (post_survey stringify e net t d b)) = rows d @ [row] \<and>
             description row = field b ''brand_service'' \<and>
             brand_service row = field b ''brand_service'' \<and>
             is_submitted row = JNum 1"
    using some post_survey_inserted [of b d stringify e net t] by simp
qed

theorem post_survey_description_is_brand_service_witness:
  "\<exists>row. rows (store (post_survey (\<lambda>v. ''{}'') readme_env (NoReply []) 500 example_store
              (JObj [(''brand_name'', JStr ''Acme''), (''brand_service'', JStr ''anvils'')]))) =
            rows example_store @ [row] \<and>
         outcome (post_survey (\<lambda>v. ''{}'') readme_env (NoReply []) 500 example_store
              (JObj [(''brand_name'', JStr ''Acme''), (''brand_service'', JStr ''anvils'')])) =
            Sent (json_response 201 (IdBody (JNum (survey_id row)))) \<and>
         description row = JStr ''anvils'' \<and> brand_service row = JStr ''anvils'' \<and>
         is_submitted row = JNum 1"
proof -
  have valid: "\<exists>k \<in> set semantic_fields.
      truthy (field (JObj [(''brand_name'', JStr ''Acme''), (''brand_service'', JStr ''anvils'')]) k)"
    by (simp add: semantic_fields_def field_def)
  have healthy: "conn_error example_store = None" "query_fault example_store insertSql = None"
    by (simp_all add: example_store_def)
  have bs: "field (JObj [(''brand_name'', JStr ''Acme''), (''brand_service'', JStr ''anvils'')])
              ''brand_service'' = JStr ''anvils''"
    by (simp add: field_def)
  from valid healthy
    post_survey_description_is_brand_service
      [of "JObj [(''brand_name'', JStr ''Acme''), (''brand_service'', JStr ''anvils'')]"
          example_store "\<lambda>v. ''{}''" readme_env "NoReply []" 500]
  show ?thesis unfolding bs by blast
qed


text \<open>
  C7. A failure of \<open>pool.getConnection()\<close> in the submission handler is not answered with a
  500: the connection is acquired before the \<open>try\<close>, so the rejection escapes the handler,
  which sends nothing and logs nothing. The three admin operations acquire the connection
  inside their \<open>try\<close> and answer the same failure with their generic 500.
\<close>

theorem post_survey_connection_failure_is_not_caught:
  "post_survey stringify e net t (d\<lparr>conn_error := Some err\<rparr>)
       (JObj [(''brand_name'', JStr ''Acme'')]) =
     \<lparr>outcome = Threw err, store = d\<lparr>conn_error := Some err\<rparr>, trace = []\<rparr> \<and>
   outcome (list_surveys (d\<lparr>conn_error := Some err\<rparr>) q) =
     Sent (json_response 500 (ErrorBody ''Failed to fetch surveys'')) \<and>
   outcome (get_survey (d\<lparr>conn_error := Some err\<rparr>) i) =
     Sent (json_response 500 (ErrorBody ''Failed to fetch survey detail'')) \<and>
   outcome (delete_survey (d\<lparr>conn_error := Some err\<rparr>) i) =
     Sent (json_response 500 (ErrorBody ''Failed to delete survey''))"
proof -
  have "\<exists>k \<in> set semantic_fields. truthy (field (JObj [(''brand_name'', JStr ''Acme'')]) k)"
    by (simp add: semantic_fields_def field_def)
  then have "post_survey stringify e net t (d\<lparr>conn_error := Some err\<rparr>)
       (JObj [(''brand_name'', JStr ''Acme'')]) =
     \<lparr>outcome = Threw err, store = d\<lparr>conn_error := Some err\<rparr>, trace = []\<rparr>"
    by (rule post_survey_no_connection) simp
  moreover have "outcome (list_surveys (d\<lparr>conn_error := Some err\<rparr>) q) =
     Sent (json_response 500 (ErrorBody ''Failed to fetch surveys''))"
    by (simp add: list_surveys_def getConnection_def list_failed_def Let_def)
  moreover have "outcome (get_survey (d\<lparr>conn_error := Some err\<rparr>) i) =
     Sent (json_response 500 (ErrorBody ''Failed to fetch survey detail''))"
    by (simp add: get_survey_def getConnection_def)
  moreover have "outcome (delete_survey (d\<lparr>conn_error := Some err\<rparr>) i) =
     Sent (json_response 500 (ErrorBody ''Failed to delete survey''))"
    by (simp add: delete_survey_def getConnection_def)
  ultimately show ?thesis by simp
qed

text \<open>
  If the framework hands the escaped rejection to the final error handler, the client gets
  that handler's \<open>Server error\<close>; if it does not, the request is never answered.
\<close>

lemma final_error_handler_unsent:
  "final_error_handler False err =
     (Some (json_response 500 (ErrorBody ''Server error'')),
      [ConsoleError ''Unhandled error:'' [LErr err]])"
  by (simp add: final_error_handler_def)

text \<open>
  What does hold of the store failures: a rejected insert is answered with the generic 500
  of the submission handler and the error is logged (\<open>post_survey_insert_rejected\<close>), and a
  rejected statement of an admin operation is answered with that operation's generic 500,
  the details going to the console only. The bodies are constants: nothing of the error
  reaches them.
\<close>

lemma get_survey_store_failure:
  "conn_error d = None \<Longrightarrow> query_fault d selectSql = Some err \<Longrightarrow>
   outcome (get_survey d i) =
     Sent (json_response 500 (ErrorBody ''Failed to fetch survey detail'')) \<and>
   ConsoleError ''GET /api/admin/surveys/:id error (detailed):'' [LVal (id_detail err i)]
     \<in> set (trace (get_survey d i))"
  by (simp add: get_survey_def getConnection_def query_rejected)

lemma delete_survey_store_failure:
  "conn_error d = None \<Longrightarrow> query_fault d deleteSql = Some err \<Longrightarrow>
   outcome (delete_survey d i) =
     Sent (json_response 500 (ErrorBody ''Failed to delete survey'')) \<and>
   store (delete_survey d i) = d \<and>
   ConsoleError ''DELETE /api/admin/surveys/:id error (detailed):'' [LVal (id_detail err i)]
     \<in> set (trace (delete_survey d i))"
  by (simp add: delete_survey_def getConnection_def query_rejected)

lemma list_surveys_count_failure:
  "conn_error d = None \<Longrightarrow>
   query_fault d (fst (fst (list_queries (effective_search q) (effective_limit q)
                      (effective_offset q)))) = Some err \<Longrightarrow>
   outcome (list_surveys d q) =
     Sent (json_response 500 (ErrorBody ''Failed to fetch surveys'')) \<and>
   ConsoleError ''GET /api/admin/surveys error (detailed):'' [LVal (list_detail err q)]
     \<in> set (trace (list_surveys d q))"
  by (simp add: list_surveys_def getConnection_def query_rejected list_failed_def Let_def)

section \<open>Notification sender\<close>

lemma axios_post_fails_iff:
  "(\<exists>err. axios_post net = Inl err) \<longleftrightarrow>
     ((\<exists>msg. net = NoReply msg) \<or> (\<exists>st data. net = Reply st data \<and> \<not> (200 \<le> st \<and> st < 300)))"
  by (cases net) (auto simp: axios_post_def)

text \<open>The stand-alone client, which the submission path does not use, does raise.\<close>

lemma sendViaEmailJS_raises:
  "\<not> truthy service_id \<or> \<not> truthy template_id \<or> \<not> truthy user_id \<Longrightarrow>
     \<exists>err. sendViaEmailJS service_id template_id user_id template_params net = Inl err"
  "truthy service_id \<Longrightarrow> truthy template_id \<Longrightarrow> truthy user_id \<Longrightarrow>
   \<not> (200 \<le> st \<and> st < 300) \<Longrightarrow>
     \<exists>err. sendViaEmailJS service_id template_id user_id template_params
             (FetchResponse st statusText txt parsed) = Inl err \<and> err_status err = Some st"
  by (auto simp: sendViaEmailJS_def)

lemma post_survey_independent_of_notification:
  "outcome (post_survey stringify e net t d b) = outcome (post_survey stringify e' net' t d b) \<and>
   store (post_survey stringify e net t d b) = store (post_survey stringify e' net' t d b)"
proof -
  consider
      (invalid) "\<forall>k \<in> set semantic_fields. \<not> truthy (field b k)"
    | (noconn) err where "\<exists>k \<in> set semantic_fields. truthy (field b k)" "conn_error d = Some err"
    | (rejected) err where "\<exists>k \<in> set semantic_fields. truthy (field b k)" "conn_error d = None"
        "query_fault d insertSql = Some err"
    | (inserted) "\<exists>k \<in> set semantic_fields. truthy (field b k)" "conn_error d = None"
        "query_fault d insertSql = None"
    using post_survey_cases [of b d] by blast
  then show ?thesis
  proof cases
    case invalid
    then show ?thesis by (simp add: post_survey_invalid)
  next
    case noconn
    then show ?thesis by (simp add: post_survey_no_connection)
  next
    case rejected
    then show ?thesis by (simp add: post_survey_insert_rejected)
  next
    case inserted
    then show ?thesis by (simp add: post_survey_inserted)
  qed
qed

text \<open>
  C8. The notification sender always returns normally. If any of the three configuration
  values is unset (or empty) it makes no external call: its only effect is a warning. If
  all three are set and the external call fails, by no reply at all or by a reply whose
  status is not 2xx, the failure is logged with \<open>console.error\<close> and nothing is raised. And
  the response and the store of a submission are the same whatever the notification
  configuration is and however the external endpoint reacts.
\<close>

theorem sendEmailNotification_never_raises:
  "fst (sendEmailNotification e net t insertedId brandName) = Resolved \<and>
   (\<not> truthy_str (EMAILJS_SERVICE_ID e) \<or> \<not> truthy_str (EMAILJS_TEMPLATE_ID e) \<or>
    \<not> truthy_str (EMAILJS_USER_ID e) \<longrightarrow>
      snd (sendEmailNotification e net t insertedId brandName) =
        [ConsoleWarn ''EmailJS credentials not configured; skipping notification'' []]) \<and>
   (truthy_str (EMAILJS_SERVICE_ID e) \<and> truthy_str (EMAILJS_TEMPLATE_ID e) \<and>
    truthy_str (EMAILJS_USER_ID e) \<and>
    ((\<exists>msg. net = NoReply msg) \<or> (\<exists>st data. net = Reply st data \<and> \<not> (200 \<le> st \<and> st < 300))) \<longrightarrow>
      (\<exists>payload logged.
         snd (sendEmailNotification e net t insertedId brandName) =
           [HttpPost EMAILJS_API payload, ConsoleError ''EmailJS notify error'' [logged]])) \<and>
   outcome (post_survey stringify e net t d b) = outcome (post_survey stringify e' net' t d b) \<and>
   store (post_survey stringify e net t d b) = store (post_survey stringify e' net' t d b)"
proof (intro conjI impI)
  show "fst (sendEmailNotification e net t insertedId brandName) = Resolved"
    by (simp add: sendEmailNotification_def Let_def split: sum.splits)
next
  assume "\<not> truthy_str (EMAILJS_SERVICE_ID e) \<or> \<not> truthy_str (EMAILJS_TEMPLATE_ID e) \<or>
    \<not> truthy_str (EMAILJS_USER_ID e)"
  then show "snd (sendEmailNotification e net t insertedId brandName) =
        [ConsoleWarn ''EmailJS credentials not configured; skipping notification'' []]"
    by (auto simp: sendEmailNotification_def Let_def)
next
  assume h: "truthy_str (EMAILJS_SERVICE_ID e) \<and> truthy_str (EMAILJS_TEMPLATE_ID e) \<and>
    truthy_str (EMAILJS_USER_ID e) \<and>
    ((\<exists>msg. net = NoReply msg) \<or> (\<exists>st data. net = Reply st data \<and> \<not> (200 \<le> st \<and> st < 300)))"
  then obtain err where "axios_post net = Inl err"
    using axios_post_fails_iff [of net] by blast
  with h show "\<exists>payload logged.
         snd (sendEmailNotification e net t insertedId brandName) =
           [HttpPost EMAILJS_API payload, ConsoleError ''EmailJS notify error'' [logged]]"
    by (simp add: sendEmailNotification_def Let_def)
next
  show "outcome (post_survey stringify e net t d b) = outcome (post_survey stringify e' net' t d b)"
    using post_survey_independent_of_notification by blast
next
  show "store (post_survey stringify e net t d b) = store (post_survey stringify e' net' t d b)"
    using post_survey_independent_of_notification by blast
qed

theorem sendEmailNotification_never_raises_witness:
  "snd (sendEmailNotification readme_env (Reply 200 JNull) 500 (JNum 4) (JStr ''Acme'')) =
     [ConsoleWarn ''EmailJS credentials not configured; skipping notification'' []] \<and>
   (\<exists>payload logged.
      snd (sendEmailNotification
             (readme_env\<lparr>EMAILJS_SERVICE_ID := Some ''service_x'',
                         EMAILJS_TEMPLATE_ID := Some ''template_y'',
                         EMAILJS_USER_ID := Some ''user_z''\<rparr>)
             (Reply 503 (JStr ''unavailable'')) 500 (JNum 4) (JStr ''Acme'')) =
        [HttpPost EMAILJS_API payload, ConsoleError ''EmailJS notify error'' [logged]]) \<and>
   fst (sendEmailNotification
             (readme_env\<lparr>EMAILJS_SERVICE_ID := Some ''service_x'',
                         EMAILJS_TEMPLATE_ID := Some ''template_y'',
                         EMAILJS_USER_ID := Some ''user_z''\<rparr>)
             (Reply 503 (JStr ''unavailable'')) 500 (JNum 4) (JStr ''Acme'')) = Resolved"
proof -
  have unset: "\<not> truthy_str (EMAILJS_SERVICE_ID readme_env)"
    by (simp add: readme_env_def truthy_str_def)
  have set3:
    "truthy_str (EMAILJS_SERVICE_ID (readme_env\<lparr>EMAILJS_SERVICE_ID := Some ''service_x'',
                         EMAILJS_TEMPLATE_ID := Some ''template_y'',
                         EMAILJS_USER_ID := Some ''user_z''\<rparr>))"
    "truthy_str (EMAILJS_TEMPLATE_ID (readme_env\<lparr>EMAILJS_SERVICE_ID := Some ''service_x'',
                         EMAILJS_TEMPLATE_ID := Some ''template_y'',
                         EMAILJS_USER_ID := Some ''user_z''\<rparr>))"
    "truthy_str (EMAILJS_USER_ID (readme_env\<lparr>EMAILJS_SERVICE_ID := Some ''service_x'',
                         EMAILJS_TEMPLATE_ID := Some ''template_y'',
                         EMAILJS_USER_ID := Some ''user_z''\<rparr>))"
    by (simp_all add: truthy_str_def)
  have fails: "\<exists>st data. Reply 503 (JStr ''unavailable'') = Reply st data \<and> \<not> (200 \<le> st \<and> st < 300)"
    by simp
  from unset
    sendEmailNotification_never_raises
      [of readme_env "Reply 200 JNull" 500 "JNum 4" "JStr ''Acme''"]
  have a: "snd (sendEmailNotification readme_env (Reply 200 JNull) 500 (JNum 4) (JStr ''Acme'')) =
     [ConsoleWarn ''EmailJS credentials not configured; skipping notification'' []]"
    by blast
  from set3 fails
    sendEmailNotification_never_raises
      [of "readme_env\<lparr>EMAILJS_SERVICE_ID := Some ''service_x'',
                         EMAILJS_TEMPLATE_ID := Some ''template_y'',
                         EMAILJS_USER_ID := Some ''user_z''\<rparr>"
          "Reply 503 (JStr ''unavailable'')" 500 "JNum 4" "JStr ''Acme''"]
  have b: "(\<exists>payload logged.
      snd (sendEmailNotification
             (readme_env\<lparr>EMAILJS_SERVICE_ID := Some ''service_x'',
                         EMAILJS_TEMPLATE_ID := Some ''template_y'',
                         EMAILJS_USER_ID := Some ''user_z''\<rparr>)
             (Reply 503 (JStr ''unavailable'')) 500 (JNum 4) (JStr ''Acme'')) =
        [HttpPost EMAILJS_API payload, ConsoleError ''EmailJS notify error'' [logged]]) \<and>
   fst (sendEmailNotification
             (readme_env\<lparr>EMAILJS_SERVICE_ID := Some ''service_x'',
                         EMAILJS_TEMPLATE_ID := Some ''template_y'',
                         EMAILJS_USER_ID := Some ''user_z''\<rparr>)
             (Reply 503 (JStr ''unavailable'')) 500 (JNum 4) (JStr ''Acme'')) = Resolved"
    by blast
  from a b show ?thesis by blast
qed


section \<open>Admin operations\<close>

lemma filter_none_id: "\<forall>x \<in> set xs. \<not> P x \<Longrightarrow> filter (\<lambda>x. \<not> P x) xs = xs"
  by (induction xs) auto

lemma delete_survey_healthy:
  "conn_error d = None \<Longrightarrow> query_fault d deleteSql = None \<Longrightarrow>
   outcome (delete_survey d i) =
     (if \<forall>r \<in> set (rows d). \<not> id_eq d (JStr i) (survey_id r)
      then Sent (json_response 404 (ErrorBody ''Not found''))
      else Sent (json_response 200 (DeletedBody (JStr i)))) \<and>
   store (delete_survey d i) =
     d\<lparr>rows := filter (\<lambda>r. \<not> id_eq d (JStr i) (survey_id r)) (rows d)\<rparr>"
  by (auto simp: delete_survey_def getConnection_def query_delete none_affected_def
        filter_empty_conv)

lemma get_survey_healthy:
  "conn_error d = None \<Longrightarrow> query_fault d selectSql = None \<Longrightarrow>
   outcome (get_survey d i) =
     (case filter (\<lambda>r. id_eq d (JStr i) (survey_id r)) (rows d) of
        [] \<Rightarrow> Sent (json_response 404 (ErrorBody ''Not found''))
      | r # _ \<Rightarrow> Sent (json_response 200 (RecordBody r)))"
  by (simp add: get_survey_def getConnection_def query_select rows_of_def split: list.splits)

text \<open>
  C5. On a store that answers (the connection is acquired, the delete and the select are
  not rejected): deleting an id that matches a record is answered with 200 and
  \<open>{deletedId: id}\<close>, the id echoed as it was given, and a get of the same id afterwards is
  answered with 404; deleting an id that matches no record is answered with 404 and
  leaves the store exactly as it was.
\<close>

theorem delete_survey_then_get_is_404:
  "conn_error d = None \<and> query_fault d deleteSql = None \<and> query_fault d selectSql = None \<longrightarrow>
     ((\<exists>r \<in> set (rows d). id_eq d (JStr i) (survey_id r)) \<longrightarrow>
        outcome (delete_survey d i) = Sent (json_response 200 (DeletedBody (JStr i))) \<and>
        outcome (get_survey (store (delete_survey d i)) i) =
          Sent (json_response 404 (ErrorBody ''Not found''))) \<and>
     (\<not> (\<exists>r \<in> set (rows d). id_eq d (JStr i) (survey_id r)) \<longrightarrow>
        outcome (delete_survey d i) = Sent (json_response 404 (ErrorBody ''Not found'')) \<and>
        store (delete_survey d i) = d)"
proof (intro impI conjI)
  assume ok: "conn_error d = None \<and> query_fault d deleteSql = None \<and> query_fault d selectSql = None"
  assume ex: "\<exists>r \<in> set (rows d). id_eq d (JStr i) (survey_id r)"
  from ok ex show "outcome (delete_survey d i) = Sent (json_response 200 (DeletedBody (JStr i)))"
    using delete_survey_healthy [of d i] by auto
  let ?d' = "d\<lparr>rows := filter (\<lambda>r. \<not> id_eq d (JStr i) (survey_id r)) (rows d)\<rparr>"
  have st: "store (delete_survey d i) = ?d'"
    using ok delete_survey_healthy [of d i] by simp
  have "filter (\<lambda>r. id_eq ?d' (JStr i) (survey_id r)) (rows ?d') = []"
    by (simp add: filter_empty_conv)
  moreover have "conn_error ?d' = None" "query_fault ?d' selectSql = None"
    using ok by simp_all
  ultimately have "outcome (get_survey ?d' i) = Sent (json_response 404 (ErrorBody ''Not found''))"
    using get_survey_healthy [of ?d' i] by simp
  with st show "outcome (get_survey (store (delete_survey d i)) i) =
          Sent (json_response 404 (ErrorBody ''Not found''))"
    by simp
next
  assume ok: "conn_error d = None \<and> query_fault d deleteSql = None \<and> query_fault d selectSql = None"
  assume no: "\<not> (\<exists>r \<in> set (rows d). id_eq d (JStr i) (survey_id r))"
  then have all: "\<forall>r \<in> set (rows d). \<not> id_eq d (JStr i) (survey_id r)" by blast
  from ok all show "outcome (delete_survey d i) = Sent (json_response 404 (ErrorBody ''Not found''))"
    using delete_survey_healthy [of d i] by simp
  from ok all show "store (delete_survey d i) = d"
    using delete_survey_healthy [of d i] filter_none_id [OF all] by simp
qed

lemma example_store_ids:
  "(\<exists>r \<in> set (rows example_store). id_eq example_store (JStr ''2'') (survey_id r))"
  "\<not> (\<exists>r \<in> set (rows example_store). id_eq example_store (JStr ''7'') (survey_id r))"
  by (simp_all add: example_store_def example_row_def) code_simp+

theorem delete_survey_then_get_is_404_witness:
  "outcome (delete_survey example_store ''2'') =
     Sent (json_response 200 (DeletedBody (JStr ''2''))) \<and>
   outcome (get_survey (store (delete_survey example_store ''2'')) ''2'') =
     Sent (json_response 404 (ErrorBody ''Not found'')) \<and>
   outcome (delete_survey example_store ''7'') =
     Sent (json_response 404 (ErrorBody ''Not found'')) \<and>
   store (delete_survey example_store ''7'') = example_store"
proof -
  have ok: "conn_error example_store = None \<and> query_fault example_store deleteSql = None \<and>
            query_fault example_store selectSql = None"
    by (simp add: example_store_def)
  from ok example_store_ids
    delete_survey_then_get_is_404 [of example_store "''2''"]
    delete_survey_then_get_is_404 [of example_store "''7''"]
  show ?thesis by blast
qed


subsection \<open>Ordering and paging\<close>

lemma mset_insert_desc: "mset (insert_desc d r xs) = add_mset r (mset xs)"
  by (induction xs) auto

lemma mset_order_by: "mset (order_by d rs) = mset rs"
  by (induction rs) (auto simp: order_by_def mset_insert_desc)

lemma set_order_by: "set (order_by d rs) = set rs"
  using mset_order_by [of d rs] by (metis set_mset_mset)

lemma newer_total: "newer d a b \<or> newer d b a"
  by (auto simp: newer_def)

lemma newer_trans: "newer d a b \<Longrightarrow> newer d b c \<Longrightarrow> newer d a c"
  by (auto simp: newer_def)

lemma set_insert_desc: "set (insert_desc d r xs) = insert r (set xs)"
  by (induction xs) auto

lemma sorted_insert_desc:
  "sorted_wrt (newer d) xs \<Longrightarrow> sorted_wrt (newer d) (insert_desc d r xs)"
proof (induction xs)
  case Nil
  then show ?case by simp
next
  case (Cons x xs)
  show ?case
  proof (cases "newer d r x")
    case True
    with Cons.prems show ?thesis by (auto intro: newer_trans)
  next
    case False
    then have "newer d x r" using newer_total [of d r x] by simp
    with False Cons show ?thesis by (auto simp: set_insert_desc)
  qed
qed

text \<open>
  The result set is the table's records, each once, latest submission first and, among
  equal submission times, highest id first.
\<close>

lemma sorted_order_by: "sorted_wrt (newer d) (order_by d rs)"
  by (induction rs) (auto simp: order_by_def sorted_insert_desc)

lemma page_of_rows:
  "page_of s l off rs = Inr x \<Longrightarrow> \<exists>n k. x = RowSet (take n (drop k rs))"
  by (auto simp: page_of_def split: jsval.splits if_splits)

lemma page_of_numbers:
  "0 \<le> n \<Longrightarrow> 0 \<le> k \<Longrightarrow>
   page_of s (JNum n) (JNum k) rs = Inr (RowSet (take (nat n) (drop (nat k) rs)))"
  by (simp add: page_of_def)

lemma page_of_NaN: "page_of s l JNaN rs = Inl (sql_error s ''You have an error in your SQL syntax'')"
  by (simp add: page_of_def split: jsval.splits)

lemma query_count_all:
  "query_fault d countSql_base = None \<Longrightarrow>
   query countSql_base [] d = (Inr (CountSet (int (length (rows d)))), d)"
  by (simp add: query_def classify_simps run_statement_def)

lemma query_count_like:
  "query_fault d (countSql_base @ likeClause) = None \<Longrightarrow>
   query (countSql_base @ likeClause) [p1, p2, p3] d =
     (Inr (CountSet (int (length (filter (where_like d p1 p2 p3) (rows d))))), d)"
  by (simp add: query_def classify_simps run_statement_def)

lemma query_page_all:
  "query_fault d (dataSql_base @ orderClause) = None \<Longrightarrow>
   query (dataSql_base @ orderClause) [l, off] d =
     (page_of (dataSql_base @ orderClause) l off (order_by d (rows d)), d)"
  by (simp add: query_def classify_simps run_statement_def)

lemma query_page_like:
  "query_fault d (dataSql_base @ likeClause @ orderClause) = None \<Longrightarrow>
   query (dataSql_base @ likeClause @ orderClause) [p1, p2, p3, l, off] d =
     (page_of (dataSql_base @ likeClause @ orderClause) l off
        (order_by d (filter (where_like d p1 p2 p3) (rows d))), d)"
  by (simp add: query_def classify_simps run_statement_def)

lemma list_queries_plain:
  "list_queries [] l off =
     ((countSql_base, []), (dataSql_base @ orderClause, [num_val l, num_val off]))"
  by (simp add: list_queries_def)

lemma list_queries_search:
  "s \<noteq> [] \<Longrightarrow>
   list_queries s l off =
     ((countSql_base @ likeClause, replicate 3 (JStr (''%'' @ s @ ''%''))),
      (dataSql_base @ likeClause @ orderClause,
       replicate 3 (JStr (''%'' @ s @ ''%'')) @ [num_val l, num_val off]))"
  by (simp add: list_queries_def numeral_3_eq_3 Let_def)

text \<open>The records a list request selects before ordering and paging.\<close>

lemma list_surveys_items_aux:
  assumes qs: "list_queries (effective_search q) (effective_limit q) (effective_offset q) =
                 ((cs, cp), (ds, dp))"
    and cnt: "query_fault d cs = None \<Longrightarrow> query cs cp d = (Inr (CountSet c), d)"
    and dat: "query_fault d ds = None \<Longrightarrow> query ds dp d = (page_of ds l off rs, d)"
    and out: "outcome (list_surveys d q) = Sent r" "body r = ListBody items tot p n"
  shows "\<exists>n k. items = take n (drop k rs)"
proof -
  let ?failed = "Sent (json_response 500 (ErrorBody ''Failed to fetch surveys''))"
  have not_failed: "outcome (list_surveys d q) \<noteq> ?failed"
    using out by (auto simp: json_response_def)
  consider
      (noconn) err where "conn_error d = Some err"
    | (count) err where "conn_error d = None" "query_fault d cs = Some err"
    | (data) err where "conn_error d = None" "query_fault d cs = None"
        "query_fault d ds = Some err"
    | (healthy) "conn_error d = None" "query_fault d cs = None" "query_fault d ds = None"
    by (cases "conn_error d"; cases "query_fault d cs"; cases "query_fault d ds") auto
  then show ?thesis
  proof cases
    case noconn
    then have "outcome (list_surveys d q) = ?failed"
      by (simp add: list_surveys_def Let_def getConnection_def list_failed_def)
    with not_failed show ?thesis by simp
  next
    case count
    then have "outcome (list_surveys d q) = ?failed"
      by (simp add: list_surveys_def Let_def qs getConnection_def query_rejected list_failed_def)
    with not_failed show ?thesis by simp
  next
    case data
    then have "outcome (list_surveys d q) = ?failed"
      by (simp add: list_surveys_def Let_def qs getConnection_def cnt query_rejected
            list_failed_def)
    with not_failed show ?thesis by simp
  next
    case healthy
    show ?thesis
    proof (cases "page_of ds l off rs")
      case (Inl err)
      with healthy have "outcome (list_surveys d q) = ?failed"
        by (simp add: list_surveys_def Let_def qs getConnection_def cnt dat list_failed_def)
      with not_failed show ?thesis by simp
    next
      case (Inr x)
      with healthy have "outcome (list_surveys d q) =
          Sent (json_response 200 (ListBody (rows_of x) (cnt_of (CountSet c))
             (num_val (effective_page q)) (num_val (effective_limit q))))"
        by (simp add: list_surveys_def Let_def qs getConnection_def cnt dat)
      with out have "items = rows_of x" by (auto simp: json_response_def)
      with page_of_rows [OF Inr] show ?thesis by (fastforce simp: rows_of_def)
    qed
  qed
qed

lemma list_surveys_items:
  assumes "outcome (list_surveys d q) = Sent r" and "body r = ListBody items tot p l"
  shows "\<exists>n k. items =
           take n (drop k (order_by d
             (if effective_search q = [] then rows d
              else filter (where_like d (JStr (''%'' @ effective_search q @ ''%''))
                                        (JStr (''%'' @ effective_search q @ ''%''))
                                        (JStr (''%'' @ effective_search q @ ''%''))) (rows d))))"
proof (cases "effective_search q = []")
  case True
  have "\<exists>n k. items = take n (drop k (order_by d (rows d)))"
  proof (rule list_surveys_items_aux
      [where cs = countSql_base and cp = "[]" and ds = "dataSql_base @ orderClause"
         and dp = "[num_val (effective_limit q), num_val (effective_offset q)]"
         and l = "num_val (effective_limit q)" and off = "num_val (effective_offset q)"
         and c = "int (length (rows d))"])
    show "list_queries (effective_search q) (effective_limit q) (effective_offset q) =
            ((countSql_base, []),
             (dataSql_base @ orderClause,
              [num_val (effective_limit q), num_val (effective_offset q)]))"
      by (simp add: True list_queries_plain)
  qed (fact query_count_all query_page_all assms)+
  with True show ?thesis by simp
next
  case False
  let ?like = "JStr (''%'' @ effective_search q @ ''%'')"
  have "\<exists>n k. items =
      take n (drop k (order_by d (filter (where_like d ?like ?like ?like) (rows d))))"
  proof (rule list_surveys_items_aux
      [where cs = "countSql_base @ likeClause" and cp = "[?like, ?like, ?like]"
         and ds = "dataSql_base @ likeClause @ orderClause"
         and dp = "[?like, ?like, ?like, num_val (effective_limit q),
                    num_val (effective_offset q)]"
         and l = "num_val (effective_limit q)" and off = "num_val (effective_offset q)"
         and c = "int (length (filter (where_like d ?like ?like ?like) (rows d)))"])
    show "list_queries (effective_search q) (effective_limit q) (effective_offset q) =
            ((countSql_base @ likeClause, [?like, ?like, ?like]),
             (dataSql_base @ likeClause @ orderClause,
              [?like, ?like, ?like, num_val (effective_limit q),
               num_val (effective_offset q)]))"
      by (simp add: False list_queries_search numeral_3_eq_3)
  qed (fact query_count_like query_page_like assms)+
  with False show ?thesis by simp
qed

text \<open>
  For a request whose page and limit are numbers, the limit not negative, on a store that
  answers: the page is at least 1, the limit at most 100, and the items are the window
  \<open>(page - 1) * limit .. page * limit - 1\<close> of the ordered result set.
\<close>

lemma effective_page_floor: "effective_page q = Some p \<Longrightarrow> 1 \<le> p"
  by (auto simp: effective_page_def Math_max_def split: option.splits)

lemma effective_limit_cap: "effective_limit q = Some l \<Longrightarrow> l \<le> 100"
  by (auto simp: effective_limit_def Math_min_def split: option.splits)

lemma parseInt_defaults: "parseInt ''1'' = Some 1" "parseInt ''20'' = Some 20"
  by code_simp+

lemma effective_defaults:
  "q_page q = None \<or> q_page q = Some [] \<Longrightarrow> effective_page q = Some 1"
  "q_limit q = None \<or> q_limit q = Some [] \<Longrightarrow> effective_limit q = Some 20"
  by (auto simp: effective_page_def effective_limit_def or_else_def parseInt_defaults
        Math_max_def Math_min_def)

lemma list_surveys_window:
  assumes "conn_error d = None" and "\<forall>s. query_fault d s = None"
    and "effective_page q = Some p" and "effective_limit q = Some l" and "0 \<le> l"
    and "selected =
           (if effective_search q = [] then rows d
            else filter (where_like d (JStr (''%'' @ effective_search q @ ''%''))
                                      (JStr (''%'' @ effective_search q @ ''%''))
                                      (JStr (''%'' @ effective_search q @ ''%''))) (rows d))"
  shows "outcome (list_surveys d q) =
           Sent (json_response 200
             (ListBody (take (nat l) (drop (nat ((p - 1) * l)) (order_by d selected)))
                (int (length selected)) (JNum p) (JNum l)))"
proof -
  have "1 \<le> p" using assms(3) by (rule effective_page_floor)
  then have off: "0 \<le> (p - 1) * l" using assms(5) by simp
  have eo: "effective_offset q = Some ((p - 1) * l)"
    using assms(3,4) by (simp add: effective_offset_def num_sub_def num_mul_def)
  show ?thesis
  proof (cases "effective_search q = []")
    case True
    with assms off eo show ?thesis
      by (simp add: list_surveys_def Let_def list_queries_plain getConnection_def
            query_count_all query_page_all page_of_numbers num_val_def rows_of_def cnt_of_def)
  next
    case False
    with assms off eo show ?thesis
      by (simp add: list_surveys_def Let_def list_queries_search getConnection_def
            query_count_like query_page_like page_of_numbers num_val_def rows_of_def
            cnt_of_def numeral_3_eq_3)
  qed
qed

text \<open>
  C3. A page parameter that is not a number is not floored at 1: \<open>parseInt\<close> gives NaN,
  \<open>Math.max(1, NaN)\<close> is NaN, the offset is NaN, and the data statement, bound to
  \<open>OFFSET NaN\<close>, is rejected by the store, so the request is answered with 500.
\<close>

theorem list_surveys_page_not_a_number:
  "effective_page (no_params\<lparr>q_page := Some ''abc''\<rparr>) = None \<and>
   effective_limit (no_params\<lparr>q_page := Some ''abc''\<rparr>) = Some 20 \<and>
   effective_offset (no_params\<lparr>q_page := Some ''abc''\<rparr>) = None \<and>
   outcome (list_surveys example_store (no_params\<lparr>q_page := Some ''abc''\<rparr>)) =
     Sent (json_response 500 (ErrorBody ''Failed to fetch surveys''))"
proof -
  have p: "effective_page (no_params\<lparr>q_page := Some ''abc''\<rparr>) = None"
    by code_simp
  have l: "effective_limit (no_params\<lparr>q_page := Some ''abc''\<rparr>) = Some 20"
    by code_simp
  have off: "effective_offset (no_params\<lparr>q_page := Some ''abc''\<rparr>) = None"
    by (simp add: effective_offset_def p num_sub_def num_mul_def)
  have s: "effective_search (no_params\<lparr>q_page := Some ''abc''\<rparr>) = []"
    by (simp add: effective_search_def no_params_def or_else_def trim_def)
  have "outcome (list_surveys example_store (no_params\<lparr>q_page := Some ''abc''\<rparr>)) =
     Sent (json_response 500 (ErrorBody ''Failed to fetch surveys''))"
    by (simp add: list_surveys_def Let_def p l off s list_queries_plain getConnection_def
          query_count_all query_page_all page_of_NaN num_val_def list_failed_def
          example_store_def)
  with p l off show ?thesis by simp
qed


subsection \<open>Searching\<close>

lemma prefix_exact: "prefix_under (=) s t \<longleftrightarrow> (\<exists>post. t = s @ post)"
proof (induction s arbitrary: t)
  case Nil
  then show ?case by simp
next
  case (Cons x xs)
  then show ?case by (cases t) auto
qed

text \<open>Under exact comparison, \<open>contains_under\<close> is the substring relation.\<close>

lemma contains_exact: "contains_under (=) s t \<longleftrightarrow> (\<exists>pre post. t = pre @ s @ post)"
proof (induction t)
  case Nil
  then show ?case by (cases s) auto
next
  case (Cons y ys)
  have "(\<exists>pre post. y # ys = pre @ s @ post) \<longleftrightarrow>
        (\<exists>post. y # ys = s @ post) \<or> (\<exists>pre post. ys = pre @ s @ post)"
  proof
    assume "\<exists>pre post. y # ys = pre @ s @ post"
    then obtain pre post where eq: "y # ys = pre @ s @ post" by blast
    show "(\<exists>post. y # ys = s @ post) \<or> (\<exists>pre post. ys = pre @ s @ post)"
    proof (cases pre)
      case Nil
      with eq show ?thesis by auto
    next
      case (Cons p ps)
      with eq have "ys = ps @ s @ post" by simp
      then show ?thesis by blast
    qed
  next
    assume "(\<exists>post. y # ys = s @ post) \<or> (\<exists>pre post. ys = pre @ s @ post)"
    then show "\<exists>pre post. y # ys = pre @ s @ post"
    proof
      assume "\<exists>post. y # ys = s @ post"
      then obtain post where "y # ys = [] @ s @ post" by auto
      then show ?thesis by blast
    next
      assume "\<exists>pre post. ys = pre @ s @ post"
      then obtain pre post where "y # ys = (y # pre) @ s @ post" by auto
      then show ?thesis by blast
    qed
  qed
  with Cons show ?case by (simp add: prefix_exact)
qed

lemma like_percent: "like_match eq ''%'' t"
  by (induction t) auto

lemma like_prefix: "like_free s \<Longrightarrow> like_match eq (s @ ''%'') t = prefix_under eq s t"
proof (induction s arbitrary: t)
  case Nil
  then show ?case using like_percent [of eq t] by simp
next
  case (Cons x xs)
  then have x: "x \<noteq> CHR ''%''" "x \<noteq> CHR ''_''" "x \<noteq> CHR 0x5C" and xs: "like_free xs"
    by (simp_all add: like_free_def)
  show ?case
  proof (cases t)
    case Nil
    with x show ?thesis by simp
  next
    case (Cons c cs)
    with x Cons.IH [OF xs, of cs] show ?thesis by simp
  qed
qed

text \<open>
  For a term without special characters, the pattern \<open>%term%\<close> matches exactly the texts
  the term occurs in.
\<close>

lemma like_contains:
  "like_free s \<Longrightarrow> like_match eq (CHR ''%'' # s @ ''%'') t = contains_under eq s t"
proof (induction t)
  case Nil
  then show ?case using like_prefix [of s eq "[]"] by simp
next
  case (Cons y ys)
  then show ?case using like_prefix [of s eq "y # ys"] by simp
qed

lemma col_like_contains:
  "like_free s \<Longrightarrow> col_like d v (JStr (''%'' @ s @ ''%'')) = field_contains d s v"
  using like_contains [of s "collate d"]
  by (simp add: col_like_def field_contains_def text_of_def split: option.splits)

lemma where_like_mentions:
  "like_free s \<Longrightarrow>
   where_like d (JStr (''%'' @ s @ ''%'')) (JStr (''%'' @ s @ ''%'')) (JStr (''%'' @ s @ ''%'')) =
     mentions d s"
  by (rule ext) (simp only: where_like_def mentions_def col_like_contains)

text \<open>
  C4, as the code has it. The search string is trimmed first. When what is left, \<open>S\<close>, is
  not empty, the count statement and the data statement carry the same clause
  \<open>WHERE brand_name LIKE ? OR brand_service LIKE ? OR description LIKE ?\<close> and the same
  parameter \<open>%S%\<close> in all three positions; when it is empty they carry no clause and no
  search parameter. When \<open>S\<close> is not empty and has none of the characters \<open>%\<close>, \<open>_\<close> and
  backslash, every returned item is a record of the table that contains \<open>S\<close> (under the
  store's collation) in \<open>brand_name\<close>, \<open>brand_service\<close> or \<open>description\<close>: the items are a
  window of the ordered list of exactly those records.
\<close>

theorem list_surveys_search_filter:
  "(effective_search q \<noteq> [] \<longrightarrow>
      list_queries (effective_search q) l off =
        ((countSql_base @ likeClause, replicate 3 (JStr (''%'' @ effective_search q @ ''%''))),
         (dataSql_base @ likeClause @ orderClause,
          replicate 3 (JStr (''%'' @ effective_search q @ ''%'')) @ [num_val l, num_val off]))) \<and>
   (effective_search q = [] \<longrightarrow>
      list_queries (effective_search q) l off =
        ((countSql_base, []), (dataSql_base @ orderClause, [num_val l, num_val off]))) \<and>
   (effective_search q \<noteq> [] \<and> like_free (effective_search q) \<and>
    outcome (list_surveys d q) = Sent r \<and> body r = ListBody items tot p n \<longrightarrow>
      (\<forall>x \<in> set items. x \<in> set (rows d) \<and> mentions d (effective_search q) x) \<and>
      (\<exists>j k. items =
         take j (drop k (order_by d (filter (mentions d (effective_search q)) (rows d))))))"
proof (intro conjI impI)
  assume "effective_search q \<noteq> []"
  then show "list_queries (effective_search q) l off =
        ((countSql_base @ likeClause, replicate 3 (JStr (''%'' @ effective_search q @ ''%''))),
         (dataSql_base @ likeClause @ orderClause,
          replicate 3 (JStr (''%'' @ effective_search q @ ''%'')) @ [num_val l, num_val off]))"
    by (rule list_queries_search)
next
  assume "effective_search q = []"
  then show "list_queries (effective_search q) l off =
        ((countSql_base, []), (dataSql_base @ orderClause, [num_val l, num_val off]))"
    by (simp add: list_queries_plain)
next
  assume h: "effective_search q \<noteq> [] \<and> like_free (effective_search q) \<and>
    outcome (list_surveys d q) = Sent r \<and> body r = ListBody items tot p n"
  then have "\<exists>j k. items = take j (drop k (order_by d
      (filter (where_like d (JStr (''%'' @ effective_search q @ ''%''))
                            (JStr (''%'' @ effective_search q @ ''%''))
                            (JStr (''%'' @ effective_search q @ ''%''))) (rows d))))"
    using list_surveys_items [of d q r items tot p n] by simp
  moreover from h have "where_like d (JStr (''%'' @ effective_search q @ ''%''))
                            (JStr (''%'' @ effective_search q @ ''%''))
                            (JStr (''%'' @ effective_search q @ ''%'')) =
                        mentions d (effective_search q)"
    by (simp only: where_like_mentions)
  ultimately have items: "\<exists>j k. items =
      take j (drop k (order_by d (filter (mentions d (effective_search q)) (rows d))))"
    by (simp only:)
  then show "\<exists>j k. items =
      take j (drop k (order_by d (filter (mentions d (effective_search q)) (rows d))))" .
  from items obtain j k where
    "items = take j (drop k (order_by d (filter (mentions d (effective_search q)) (rows d))))"
    by blast
  then have "set items \<subseteq> set (order_by d (filter (mentions d (effective_search q)) (rows d)))"
    by (metis set_take_subset set_drop_subset subset_trans)
  then show "\<forall>x \<in> set items. x \<in> set (rows d) \<and> mentions d (effective_search q) x"
    by (auto simp: set_order_by)
qed

lemma acme_search: "effective_search (no_params\<lparr>q_search := Some '' Acme ''\<rparr>) = ''Acme''"
  by code_simp

lemma acme_listing:
  "outcome (list_surveys example_store (no_params\<lparr>q_search := Some '' Acme ''\<rparr>)) =
     Sent (json_response 200
            (ListBody [example_row 1 ''Acme'' ''anvils'' 100] 1 (JNum 1) (JNum 20)))"
  by code_simp

theorem list_surveys_search_filter_witness:
  "list_queries (effective_search (no_params\<lparr>q_search := Some '' Acme ''\<rparr>)) (Some 20) (Some 0) =
     ((countSql_base @ likeClause, [JStr ''%Acme%'', JStr ''%Acme%'', JStr ''%Acme%'']),
      (dataSql_base @ likeClause @ orderClause,
       [JStr ''%Acme%'', JStr ''%Acme%'', JStr ''%Acme%'', JNum 20, JNum 0])) \<and>
   list_queries (effective_search no_params) (Some 20) (Some 0) =
     ((countSql_base, []), (dataSql_base @ orderClause, [JNum 20, JNum 0])) \<and>
   outcome (list_surveys example_store (no_params\<lparr>q_search := Some '' Acme ''\<rparr>)) =
     Sent (json_response 200
            (ListBody [example_row 1 ''Acme'' ''anvils'' 100] 1 (JNum 1) (JNum 20))) \<and>
   mentions example_store ''Acme'' (example_row 1 ''Acme'' ''anvils'' 100)"
proof -
  let ?q = "no_params\<lparr>q_search := Some '' Acme ''\<rparr>"
  have free: "like_free ''Acme''" by (simp add: like_free_def)
  have none: "effective_search no_params = []"
    by (simp add: effective_search_def no_params_def or_else_def trim_def)
  have b: "body (json_response 200
            (ListBody [example_row 1 ''Acme'' ''anvils'' 100] 1 (JNum 1) (JNum 20))) =
           ListBody [example_row 1 ''Acme'' ''anvils'' 100] 1 (JNum 1) (JNum 20)"
    by (simp add: json_response_def)
  note searched = list_surveys_search_filter
      [of ?q "Some 20" "Some 0" example_store
          "json_response 200 (ListBody [example_row 1 ''Acme'' ''anvils'' 100] 1 (JNum 1) (JNum 20))"
          "[example_row 1 ''Acme'' ''anvils'' 100]" 1 "JNum 1" "JNum 20"]
  note plain = list_surveys_search_filter [of no_params "Some 20" "Some 0"]
  have "list_queries (effective_search ?q) (Some 20) (Some 0) =
     ((countSql_base @ likeClause, [JStr ''%Acme%'', JStr ''%Acme%'', JStr ''%Acme%'']),
      (dataSql_base @ likeClause @ orderClause,
       [JStr ''%Acme%'', JStr ''%Acme%'', JStr ''%Acme%'', JNum 20, JNum 0]))"
    using searched by (simp add: acme_search numeral_3_eq_3 num_val_def)
  moreover have "list_queries (effective_search no_params) (Some 20) (Some 0) =
     ((countSql_base, []), (dataSql_base @ orderClause, [JNum 20, JNum 0]))"
    using plain none by (simp add: num_val_def)
  moreover have "mentions example_store ''Acme'' (example_row 1 ''Acme'' ''anvils'' 100)"
    using searched free acme_listing b by (simp add: acme_search)
  ultimately show ?thesis using acme_listing by simp
qed

text \<open>
  C4, as stated, fails twice. A search string of one space is not empty, yet it is trimmed
  away and no filter is applied. And the search string \<open>a_c\<close> returns the record whose
  fields are \<open>abc\<close> and \<open>letters\<close>, none of which contains \<open>a_c\<close>: \<open>_\<close> is a wildcard of
  \<open>LIKE\<close>.
\<close>

theorem list_surveys_search_counterexample:
  "q_search (no_params\<lparr>q_search := Some '' ''\<rparr>) \<noteq> Some [] \<and>
   list_queries (effective_search (no_params\<lparr>q_search := Some '' ''\<rparr>)) (Some 20) (Some 0) =
     ((countSql_base, []), (dataSql_base @ orderClause, [JNum 20, JNum 0])) \<and>
   outcome (list_surveys example_store (no_params\<lparr>q_search := Some ''a_c''\<rparr>)) =
     Sent (json_response 200
            (ListBody [example_row 2 ''abc'' ''letters'' 300,
                       example_row 3 ''Bolt'' ''a_c parts'' 200] 2 (JNum 1) (JNum 20))) \<and>
   \<not> mentions example_store ''a_c'' (example_row 2 ''abc'' ''letters'' 300)"
proof -
  have "effective_search (no_params\<lparr>q_search := Some '' ''\<rparr>) = []"
    by code_simp
  then have "list_queries (effective_search (no_params\<lparr>q_search := Some '' ''\<rparr>))
               (Some 20) (Some 0) =
     ((countSql_base, []), (dataSql_base @ orderClause, [JNum 20, JNum 0]))"
    by (simp add: list_queries_plain num_val_def)
  moreover have "outcome (list_surveys example_store (no_params\<lparr>q_search := Some ''a_c''\<rparr>)) =
     Sent (json_response 200
            (ListBody [example_row 2 ''abc'' ''letters'' 300,
                       example_row 3 ''Bolt'' ''a_c parts'' 200] 2 (JNum 1) (JNum 20)))"
    by code_simp
  moreover have "\<not> mentions example_store ''a_c'' (example_row 2 ''abc'' ''letters'' 300)"
    by code_simp
  ultimately show ?thesis by simp
qed


end
